theory Spec2Isabelle
  imports Complex_Main
begin

section \<open>Values, errors, frames\<close>

text \<open>
  The facade \<^verbatim>\<open>Mosquito\<close> of \<^verbatim>\<open>mosquito/mapi.py\<close> is embedded with explicit state
  passing. Python numbers (motor values, angles in radians, voltages) are real numbers, a
  Python tuple is a list, an exception is the left summand of a result.
\<close>

type_synonym pytuple = "real list"

text \<open>
  The failures: \<open>TimedOut\<close> and \<open>ConnectionClosed\<close> are what a blocking wait signals,
  \<open>RequestTimeout\<close> is the error into which the spec's facade turns \<open>TimedOut\<close>,
  \<open>IOError\<close> is a failed transport write, \<open>ArityMismatch\<close> a call with the wrong number
  of values, \<open>IndexError\<close> Python's.
\<close>

datatype error = RequestTimeout | TimedOut | ConnectionClosed | IOError | ArityMismatch | IndexError

type_synonym 'a result = "error + 'a"

text \<open>The message types for which \<^verbatim>\<open>__init__\<close> installs a handler in the parser.\<close>

datatype msg_type =
    POSITION_BOARD_CONNECTED
  | FIRMWARE_VERSION
  | ATTITUDE_RADIANS
  | GET_VELOCITIES
  | GET_MOTOR_NORMAL
  | GET_BATTERY_VOLTAGE
  | GET_PID_CONSTANTS

text \<open>
  What the parser thread gets from the byte source while a caller waits: a decoded frame
  of some message type with its fields, or the end of the stream.
\<close>

datatype incoming = Frame msg_type pytuple | EndOfStream

text \<open>
  One constructor per \<^verbatim>\<open>msppg.serialize_*\<close> function that \<^verbatim>\<open>mapi.py\<close> calls,
  carrying the arguments of the call. The byte layout is the business of \<^verbatim>\<open>msppg\<close>,
  which the facade only calls.
\<close>

datatype frame =
    POSITION_BOARD_CONNECTED_Request
  | FIRMWARE_VERSION_Request
  | ATTITUDE_RADIANS_Request
  | GET_VELOCITIES_Request
  | GET_BATTERY_VOLTAGE_Request
  | GET_MOTOR_NORMAL_Request
  | GET_PID_CONSTANTS_Request
  | WP_ARM_Request
  | WP_DISARM_Request
  | SET_POSITIONING_BOARD bool
  | SET_MOSQUITO_VERSION bool
  | ESC_CALIBRATION int
  | RC_CALIBRATION int
  | SET_MOTOR_NORMAL "real list"
  | SET_BATTERY_VOLTAGE real
  | SET_PID_CONSTANTS "real list"
  | SET_LEDS "int list"
  | CLEAR_EEPROM int
  | SET_EMERGENCY_STOP int
  | WP_MISSION_BEGIN int
  | WP_TAKE_OFF int int
  | WP_LAND int
  | WP_HOVER int int
  | WP_CHANGE_ALTITUDE int int
  | WP_GO_FORWARD int int
  | WP_GO_BACKWARD int int
  | WP_GO_LEFT int int
  | WP_GO_RIGHT int int
  | WP_TURN_CCW int int
  | WP_TURN_CW int int

text \<open>
  Modelled from the spec: \<^verbatim>\<open>mosquito/msppg.py\<close> is not among the sources. Encoding
  fails with \<open>ArityMismatch\<close> when the number of values is not that of the message.
  \<^verbatim>\<open>serialize_SET_MOTOR_NORMAL(*values)\<close> and \<^verbatim>\<open>serialize_SET_LEDS(*status)\<close>
  unpack a sequence into four, respectively three, positional arguments; a sequence of
  another length makes the call fail before anything is sent.
\<close>

definition serialize_SET_MOTOR_NORMAL :: "real list \<Rightarrow> frame result" where
  "serialize_SET_MOTOR_NORMAL values =
     (if length values = 4 then Inr (SET_MOTOR_NORMAL values) else Inl ArityMismatch)"

definition serialize_SET_LEDS :: "int list \<Rightarrow> frame result" where
  "serialize_SET_LEDS status =
     (if length status = 3 then Inr (SET_LEDS status) else Inl ArityMismatch)"

text \<open>Python indexing of a tuple: a negative index counts from the end, out of range raises.\<close>

definition py_index :: "'a list \<Rightarrow> int \<Rightarrow> 'a result" where
  "py_index xs i =
     (let n = int (length xs); j = (if i < 0 then n + i else i)
      in if 0 \<le> j \<and> j < n then Inr (xs ! nat j) else Inl IndexError)"

text \<open>A list comprehension whose elements may raise: the first failure ends it.\<close>

fun collect :: "'a result list \<Rightarrow> 'a list result" where
  "collect [] = Inr []"
| "collect (x # xs) =
     (case x of
        Inl e \<Rightarrow> Inl e
      | Inr a \<Rightarrow> (case collect xs of Inl e \<Rightarrow> Inl e | Inr as \<Rightarrow> Inr (a # as)))"

section \<open>Subscribers and the object store\<close>

text \<open>
  Modelled from the spec: the class \<^verbatim>\<open>Subscriber\<close> of \<^verbatim>\<open>mosquito/notify.py\<close>, which is
  not among the sources. The spec's Subscription holds the latest decoded value (or none)
  and a version counter incremented on every publish.
\<close>

record subscription =
  latest_value :: "pytuple option"
  version :: nat

type_synonym ref = nat

text \<open>
  Subscribers are objects: \<^verbatim>\<open>Subscriber()\<close> allocates a fresh one, and the facade and the
  publishers hold references to it.
\<close>

record store =
  cells :: "ref \<Rightarrow> subscription"
  next_ref :: ref

definition empty_store :: store where
  "empty_store = \<lparr>cells = (\<lambda>_. \<lparr>latest_value = None, version = 0\<rparr>), next_ref = 0\<rparr>"

definition Subscriber :: "store \<Rightarrow> ref \<times> store" where
  "Subscriber h =
     (next_ref h,
      h\<lparr>cells := (cells h)(next_ref h := \<lparr>latest_value = None, version = 0\<rparr>),
        next_ref := Suc (next_ref h)\<rparr>)"

text \<open>
  Modelled from the spec: publishing into a Subscription (\<^verbatim>\<open>notify.py\<close> is not among the
  sources) stores the value as the latest value and increments the version.
\<close>

definition publish :: "pytuple \<Rightarrow> subscription \<Rightarrow> subscription" where
  "publish v sub = sub\<lparr>latest_value := Some v, version := Suc (version sub)\<rparr>"

type_synonym handler = "pytuple \<Rightarrow> store \<Rightarrow> store"

text \<open>
  Modelled from the spec: \<^verbatim>\<open>publisher(subscriber)\<close> of \<^verbatim>\<open>mosquito/notify.py\<close> returns
  the callable that publishes its arguments into the subscriber it was built from.
\<close>

definition publisher :: "ref \<Rightarrow> handler" where
  "publisher r = (\<lambda>v h. h\<lparr>cells := (cells h)(r := publish v (cells h r))\<rparr>)"

section \<open>The facade's state\<close>

text \<open>
  \<open>calls\<close> records, in order, what the facade does with its collaborators: handing a
  frame to \<^verbatim>\<open>_send_data\<close> (\<open>SendData\<close>), calling \<^verbatim>\<open>get_value()\<close> on a
  subscriber (\<open>GetValue\<close>), reading a subscriber's version (\<open>ReadVersion\<close>) and
  calling \<^verbatim>\<open>await_fresh\<close> on a subscriber with a version to wait past
  (\<open>AwaitFresh\<close>). The methods of \<^verbatim>\<open>mapi.py\<close> do the first two only; the last two
  are the steps of the getter that the spec describes.
\<close>

datatype event = SendData frame | GetValue ref | ReadVersion ref | AwaitFresh ref nat

record mosquito =
  position_board_connected_sub :: ref
  firmware_version_sub :: ref
  attitude_sub :: ref
  velocities_sub :: ref
  motors_sub :: ref
  voltage_sub :: ref
  PID_sub :: ref
  position_board_connected_pub :: handler
  firmware_version_pub :: handler
  attitude_pub :: handler
  velocities_pub :: handler
  motors_pub :: handler
  voltage_pub :: handler
  PID_pub :: handler
  handlers :: "msg_type \<Rightarrow> handler option"
  motor_values :: "real list"
  led_status :: "int list"
  voltage :: real
  controller_constants :: "real list"
  heap :: store
  link_up :: bool
  outbox :: "frame list"
  calls :: "event list"

text \<open>\<^verbatim>\<open>Mosquito.__init__\<close>, lines 27 to 70.\<close>

definition Mosquito_init :: mosquito where
  "Mosquito_init =
     (let (pbc, h1) = Subscriber empty_store;
          (fw, h2) = Subscriber h1;
          (att, h3) = Subscriber h2;
          (vel, h4) = Subscriber h3;
          (mot, h5) = Subscriber h4;
          (vol, h6) = Subscriber h5;
          (pid, h7) = Subscriber h6;
          pbc_pub = publisher pbc;
          fw_pub = publisher fw;
          att_pub = publisher att;
          vel_pub = publisher vel;
          mot_pub = publisher mot;
          vol_pub = publisher vol;
          pid_pub = publisher pid
      in \<lparr>position_board_connected_sub = pbc,
          firmware_version_sub = fw,
          attitude_sub = att,
          velocities_sub = vel,
          motors_sub = mot,
          voltage_sub = vol,
          PID_sub = pid,
          position_board_connected_pub = pbc_pub,
          firmware_version_pub = fw_pub,
          attitude_pub = att_pub,
          velocities_pub = vel_pub,
          motors_pub = mot_pub,
          voltage_pub = vol_pub,
          PID_pub = pid_pub,
          handlers = (\<lambda>_. None)
            (POSITION_BOARD_CONNECTED := Some pbc_pub,
             FIRMWARE_VERSION := Some fw_pub,
             ATTITUDE_RADIANS := Some att_pub,
             GET_VELOCITIES := Some vel_pub,
             GET_MOTOR_NORMAL := Some mot_pub,
             GET_BATTERY_VOLTAGE := Some vol_pub,
             GET_PID_CONSTANTS := Some pid_pub),
          motor_values = replicate 4 0,
          led_status = replicate 3 0,
          voltage = 0,
          controller_constants = replicate 19 0,
          heap = h7,
          link_up = True,
          outbox = [],
          calls = []\<rparr>)"

section \<open>Collaborators: transport, parser thread, blocking wait\<close>

text \<open>
  Modelled from the spec: \<^verbatim>\<open>MosquitoComms._send_data\<close> of \<^verbatim>\<open>mosquito/coms.py\<close>, which
  is not among the sources. The byte sink is \<^verbatim>\<open>write(bytes) \<rightarrow> ok | IOError\<close>: on a
  working link the frame is handed to the transport, otherwise the call fails.
\<close>

definition send_data :: "frame \<Rightarrow> mosquito \<Rightarrow> unit result \<times> mosquito" where
  "send_data f s =
     (let s1 = s\<lparr>calls := calls s @ [SendData f]\<rparr>
      in if link_up s1 then (Inr (), s1\<lparr>outbox := outbox s1 @ [f]\<rparr>) else (Inl IOError, s1))"

text \<open>
  Modelled from the spec: the parser of \<^verbatim>\<open>msppg\<close> is not among the sources. On a
  decoded frame of some message type it calls the handler installed for that type with the
  decoded fields, as the comments of \<^verbatim>\<open>__init__\<close> say; a frame of a type with no
  handler is dropped.
\<close>

definition dispatch :: "msg_type \<times> pytuple \<Rightarrow> mosquito \<Rightarrow> mosquito" where
  "dispatch a s =
     (case handlers s (fst a) of
        None \<Rightarrow> s
      | Some h \<Rightarrow> s\<lparr>heap := h (snd a) (heap s)\<rparr>)"

text \<open>
  Modelled from the spec: what a wait returns from a Subscription whose version has
  advanced, its latest value (\<^verbatim>\<open>notify.py\<close> is not among the sources). A version
  advances only by a publish, which stores a value, so the case of no value does not arise
  there.
\<close>

definition fresh_value :: "ref \<Rightarrow> mosquito \<Rightarrow> pytuple result \<times> mosquito" where
  "fresh_value r s =
     (case latest_value (cells (heap s) r) of
        Some v \<Rightarrow> (Inr v, s)
      | None \<Rightarrow> (Inl TimedOut, s))"

text \<open>
  Modelled from the spec: the blocking wait \<^verbatim>\<open>await_fresh(since_version, timeout)\<close>
  of a Subscription (\<^verbatim>\<open>notify.py\<close> is not among the sources). It blocks until the
  version exceeds \<open>since\<close> and then returns the freshly published value; when the
  timeout elapses first it signals \<open>TimedOut\<close>; when the stream ends first the waiter is
  released with \<open>ConnectionClosed\<close>, and the transport is closed from then on. The third
  argument lists what the parser thread gets from the byte source before the timeout
  elapses. A version that is already past \<open>since\<close> when the wait begins ends it at once.
\<close>

fun await_fresh :: "nat \<Rightarrow> ref \<Rightarrow> incoming list \<Rightarrow> mosquito \<Rightarrow> pytuple result \<times> mosquito" where
  "await_fresh since r [] s =
     (if since < version (cells (heap s) r) then fresh_value r s
      else (Inl TimedOut, s))"
| "await_fresh since r (Frame t v # as) s =
     (if since < version (cells (heap s) r) then fresh_value r s
      else await_fresh since r as (dispatch (t, v) s))"
| "await_fresh since r (EndOfStream # as) s =
     (if since < version (cells (heap s) r) then fresh_value r s
      else (Inl ConnectionClosed, s\<lparr>link_up := False\<rparr>))"

text \<open>
  Modelled from the spec: \<^verbatim>\<open>Subscriber.get_value()\<close> as the facade calls it, with no
  argument (\<^verbatim>\<open>notify.py\<close> is not among the sources): the wait for a value fresher
  than the version found on entry, with whatever the wait signals passed on.
\<close>

definition get_value :: "ref \<Rightarrow> incoming list \<Rightarrow> mosquito \<Rightarrow> pytuple result \<times> mosquito" where
  "get_value r arrivals s =
     await_fresh (version (cells (heap s) r)) r arrivals (s\<lparr>calls := calls s @ [GetValue r]\<rparr>)"

text \<open>Sequencing of two steps of a method: an exception in the first ends the method.\<close>

definition and_then :: "(mosquito \<Rightarrow> 'a result \<times> mosquito) \<Rightarrow> ('a \<Rightarrow> mosquito \<Rightarrow> 'b result \<times> mosquito)
    \<Rightarrow> mosquito \<Rightarrow> 'b result \<times> mosquito" where
  "and_then m f s = (case m s of (Inl e, s1) \<Rightarrow> (Inl e, s1) | (Inr x, s1) \<Rightarrow> f x s1)"

definition return_value :: "'a result \<Rightarrow> mosquito \<Rightarrow> 'a result \<times> mosquito" where
  "return_value x s = (x, s)"

section \<open>Telemetry getters\<close>

text \<open>
  Each getter takes, besides the state, what arrives from the byte source while it waits
  in \<^verbatim>\<open>get_value\<close>.
\<close>

definition position_board_connected :: "incoming list \<Rightarrow> mosquito \<Rightarrow> bool result \<times> mosquito" where
  "position_board_connected arrivals =
     and_then (send_data POSITION_BOARD_CONNECTED_Request) (\<lambda>_ s.
     and_then (get_value (position_board_connected_sub s) arrivals) (\<lambda>v.
     return_value (Inr (v \<noteq> []))) s)"

definition get_firmware_version :: "incoming list \<Rightarrow> mosquito \<Rightarrow> real result \<times> mosquito" where
  "get_firmware_version arrivals =
     and_then (send_data FIRMWARE_VERSION_Request) (\<lambda>_ s.
     and_then (get_value (firmware_version_sub s) arrivals) (\<lambda>v.
     return_value (py_index v 0)) s)"

definition get_attitude :: "bool \<Rightarrow> incoming list \<Rightarrow> mosquito \<Rightarrow> pytuple result \<times> mosquito" where
  "get_attitude degrees arrivals =
     and_then (send_data ATTITUDE_RADIANS_Request) (\<lambda>_ s.
     and_then (get_value (attitude_sub s) arrivals) (\<lambda>attitude.
     if \<not> degrees then return_value (Inr attitude)
     else return_value (Inr (map (\<lambda>angle. angle * 180 / pi) attitude))) s)"

definition get_velocities :: "incoming list \<Rightarrow> mosquito \<Rightarrow> pytuple result \<times> mosquito" where
  "get_velocities arrivals =
     and_then (send_data GET_VELOCITIES_Request) (\<lambda>_ s.
     get_value (velocities_sub s) arrivals s)"

definition get_voltage :: "incoming list \<Rightarrow> mosquito \<Rightarrow> real result \<times> mosquito" where
  "get_voltage arrivals =
     and_then (send_data GET_BATTERY_VOLTAGE_Request) (\<lambda>_ s.
     and_then (get_value (voltage_sub s) arrivals) (\<lambda>v.
     return_value (py_index v 0)) s)"

definition get_motors :: "incoming list \<Rightarrow> mosquito \<Rightarrow> pytuple result \<times> mosquito" where
  "get_motors arrivals =
     and_then (send_data GET_MOTOR_NORMAL_Request) (\<lambda>_ s.
     get_value (motors_sub s) arrivals s)"

definition get_PID :: "incoming list \<Rightarrow> mosquito \<Rightarrow> pytuple result \<times> mosquito" where
  "get_PID arrivals =
     and_then (send_data GET_PID_CONSTANTS_Request) (\<lambda>_ s.
     get_value (PID_sub s) arrivals s)"

definition get_motor :: "int \<Rightarrow> incoming list \<Rightarrow> mosquito \<Rightarrow> real result \<times> mosquito" where
  "get_motor motor arrivals =
     and_then (get_motors arrivals) (\<lambda>motor_values.
     return_value (py_index motor_values (motor - 1)))"

section \<open>Commands\<close>

definition arm :: "mosquito \<Rightarrow> unit result \<times> mosquito" where
  "arm = send_data WP_ARM_Request"

definition disarm :: "mosquito \<Rightarrow> unit result \<times> mosquito" where
  "disarm = send_data WP_DISARM_Request"

definition set_position_board :: "bool \<Rightarrow> mosquito \<Rightarrow> unit result \<times> mosquito" where
  "set_position_board has_position_board = send_data (SET_POSITIONING_BOARD has_position_board)"

definition set_mosquito_version :: "bool \<Rightarrow> mosquito \<Rightarrow> unit result \<times> mosquito" where
  "set_mosquito_version is_mosquito_90 = send_data (SET_MOSQUITO_VERSION is_mosquito_90)"

definition calibrate_ESCs :: "mosquito \<Rightarrow> unit result \<times> mosquito" where
  "calibrate_ESCs = send_data (ESC_CALIBRATION 0)"

definition calibrate_transmitter :: "int \<Rightarrow> mosquito \<Rightarrow> unit result \<times> mosquito" where
  "calibrate_transmitter stage = send_data (RC_CALIBRATION stage)"

definition clear_EEPROM :: "int \<Rightarrow> mosquito \<Rightarrow> unit result \<times> mosquito" where
  "clear_EEPROM section_no = send_data (CLEAR_EEPROM section_no)"

definition stop :: "mosquito \<Rightarrow> unit result \<times> mosquito" where
  "stop = send_data (SET_EMERGENCY_STOP 0)"

definition execute_mission :: "mosquito \<Rightarrow> unit result \<times> mosquito" where
  "execute_mission = send_data (WP_MISSION_BEGIN 1)"

definition take_off :: "int \<Rightarrow> mosquito \<Rightarrow> unit result \<times> mosquito" where
  "take_off height = send_data (WP_TAKE_OFF height 0)"

definition land :: "mosquito \<Rightarrow> unit result \<times> mosquito" where
  "land = send_data (WP_LAND 0)"

definition hover :: "int \<Rightarrow> mosquito \<Rightarrow> unit result \<times> mosquito" where
  "hover time = send_data (WP_HOVER time 0)"

definition change_height :: "int \<Rightarrow> mosquito \<Rightarrow> unit result \<times> mosquito" where
  "change_height height = send_data (WP_CHANGE_ALTITUDE height 0)"

definition move_forward :: "int \<Rightarrow> mosquito \<Rightarrow> unit result \<times> mosquito" where
  "move_forward time = send_data (WP_GO_FORWARD time 0)"

definition move_backwards :: "int \<Rightarrow> mosquito \<Rightarrow> unit result \<times> mosquito" where
  "move_backwards time = send_data (WP_GO_BACKWARD time 0)"

definition move_left :: "int \<Rightarrow> mosquito \<Rightarrow> unit result \<times> mosquito" where
  "move_left time = send_data (WP_GO_LEFT time 0)"

definition move_right :: "int \<Rightarrow> mosquito \<Rightarrow> unit result \<times> mosquito" where
  "move_right time = send_data (WP_GO_RIGHT time 0)"

definition turn :: "int \<Rightarrow> mosquito \<Rightarrow> unit result \<times> mosquito" where
  "turn angle =
     (if angle > 0 then send_data (WP_TURN_CCW angle 0) else send_data (WP_TURN_CW angle 0))"

section \<open>Stateful setters\<close>

definition set_motors :: "real list \<Rightarrow> mosquito \<Rightarrow> unit result \<times> mosquito" where
  "set_motors values s =
     (let s1 = s\<lparr>motor_values := values\<rparr>
      in and_then (return_value (serialize_SET_MOTOR_NORMAL values)) send_data s1)"

definition set_motor :: "int \<Rightarrow> real \<Rightarrow> mosquito \<Rightarrow> unit result \<times> mosquito" where
  "set_motor motor val s =
     (let motor_idx = motor - 1
      in and_then
           (return_value (collect (map
              (\<lambda>i. if i \<noteq> motor_idx then py_index (motor_values s) i else Inr val)
              [0, 1, 2, 3])))
           set_motors s)"

definition set_voltage :: "real \<Rightarrow> mosquito \<Rightarrow> unit result \<times> mosquito" where
  "set_voltage v s =
     (let s1 = s\<lparr>voltage := v\<rparr>
      in send_data (SET_BATTERY_VOLTAGE v) s1)"

definition set_leds :: "int option \<Rightarrow> int option \<Rightarrow> int option \<Rightarrow> mosquito \<Rightarrow> unit result \<times> mosquito" where
  "set_leds red green blue s =
     and_then
       (return_value (collect (map
          (\<lambda>(idx, val). case val of None \<Rightarrow> py_index (led_status s) idx | Some x \<Rightarrow> Inr x)
          (zip [0, 1, 2] [red, green, blue]))))
       (\<lambda>status s0.
          (let s1 = s0\<lparr>led_status := status\<rparr>
           in and_then (return_value (serialize_SET_LEDS (led_status s1))) send_data s1))
       s"

text \<open>
  \<^verbatim>\<open>set_PID\<close> takes nineteen positional arguments; they are given here as one
  list, and a call with another number of arguments fails before the body runs.
\<close>

definition set_PID :: "real list \<Rightarrow> mosquito \<Rightarrow> unit result \<times> mosquito" where
  "set_PID constants s =
     (if length constants \<noteq> 19 then (Inl ArityMismatch, s)
      else (let s1 = s\<lparr>controller_constants := constants\<rparr>
            in send_data (SET_PID_CONSTANTS constants) s1))"

section \<open>Properties to be proved: vocabulary\<close>

text \<open>The subscriber that the getter of each message type waits on.\<close>

definition sub_of :: "mosquito \<Rightarrow> msg_type \<Rightarrow> ref" where
  "sub_of s t =
     (case t of
        POSITION_BOARD_CONNECTED \<Rightarrow> position_board_connected_sub s
      | FIRMWARE_VERSION \<Rightarrow> firmware_version_sub s
      | ATTITUDE_RADIANS \<Rightarrow> attitude_sub s
      | GET_VELOCITIES \<Rightarrow> velocities_sub s
      | GET_MOTOR_NORMAL \<Rightarrow> motors_sub s
      | GET_BATTERY_VOLTAGE \<Rightarrow> voltage_sub s
      | GET_PID_CONSTANTS \<Rightarrow> PID_sub s)"

text \<open>
  The wiring that \<^verbatim>\<open>__init__\<close> sets up: seven subscribers that are seven different
  objects, and for each message type a handler that is the publisher of the subscriber of
  that type.
\<close>

definition wired :: "mosquito \<Rightarrow> bool" where
  "wired s \<longleftrightarrow>
     distinct [position_board_connected_sub s, firmware_version_sub s, attitude_sub s,
               velocities_sub s, motors_sub s, voltage_sub s, PID_sub s] \<and>
     handlers s POSITION_BOARD_CONNECTED = Some (publisher (position_board_connected_sub s)) \<and>
     handlers s FIRMWARE_VERSION = Some (publisher (firmware_version_sub s)) \<and>
     handlers s ATTITUDE_RADIANS = Some (publisher (attitude_sub s)) \<and>
     handlers s GET_VELOCITIES = Some (publisher (velocities_sub s)) \<and>
     handlers s GET_MOTOR_NORMAL = Some (publisher (motors_sub s)) \<and>
     handlers s GET_BATTERY_VOLTAGE = Some (publisher (voltage_sub s)) \<and>
     handlers s GET_PID_CONSTANTS = Some (publisher (PID_sub s))"

text \<open>The part of the state that no method writes after construction.\<close>

definition wiring :: "mosquito \<Rightarrow> ref list \<times> (msg_type \<Rightarrow> handler option)" where
  "wiring s =
     ([position_board_connected_sub s, firmware_version_sub s, attitude_sub s,
       velocities_sub s, motors_sub s, voltage_sub s, PID_sub s], handlers s)"

text \<open>The message types of the frames in what arrives.\<close>

fun frame_types :: "incoming list \<Rightarrow> msg_type set" where
  "frame_types [] = {}"
| "frame_types (Frame t v # as) = insert t (frame_types as)"
| "frame_types (EndOfStream # as) = frame_types as"

text \<open>
  Modelled from the spec: the getter as the spec's RequestFacade describes it, to be
  compared with the getters of \<^verbatim>\<open>mapi.py\<close>. It records the subscription's version,
  sends the request frame, calls \<^verbatim>\<open>await_fresh\<close> with the recorded version, and on
  \<open>TimedOut\<close> fails with \<open>RequestTimeout\<close>.
\<close>

definition spec_getter :: "ref \<Rightarrow> frame \<Rightarrow> incoming list \<Rightarrow> mosquito \<Rightarrow> pytuple result \<times> mosquito" where
  "spec_getter r request arrivals s =
     (let since = version (cells (heap s) r);
          s0 = s\<lparr>calls := calls s @ [ReadVersion r]\<rparr>
      in and_then (send_data request) (\<lambda>_ s1.
           (let (res, s2) = await_fresh since r arrivals (s1\<lparr>calls := calls s1 @ [AwaitFresh r since]\<rparr>)
            in (if res = Inl TimedOut then Inl RequestTimeout else res, s2))) s0)"

text \<open>
  A method that does nothing but hand one frame to the transport: its result is the
  transport's, the frame is the only new entry of the call log, and, apart from the call
  log and the transport's outbox, the state it returns is the state it was given.
\<close>

definition sends_only :: "(mosquito \<Rightarrow> unit result \<times> mosquito) \<Rightarrow> frame \<Rightarrow> mosquito \<Rightarrow> bool" where
  "sends_only op f s \<longleftrightarrow>
     op s = ((if link_up s then Inr () else Inl IOError),
             s\<lparr>calls := calls s @ [SendData f],
               outbox := (if link_up s then outbox s @ [f] else outbox s)\<rparr>)"

text \<open>
  The states the facade can be in: the freshly constructed one, and any state that follows
  from a call of a public method, from a frame that the parser thread dispatches, or from
  the link going down or up. (The end of the stream during a wait is part of the call of
  the getter that waits.)
\<close>

inductive reachable :: "mosquito \<Rightarrow> bool" where
  init: "reachable Mosquito_init"
| link_change: "reachable s \<Longrightarrow> reachable (s\<lparr>link_up := up\<rparr>)"
| frame_received: "reachable s \<Longrightarrow> reachable (dispatch a s)"
| call_position_board_connected:
    "reachable s \<Longrightarrow> reachable (snd (position_board_connected arrivals s))"
| call_get_firmware_version: "reachable s \<Longrightarrow> reachable (snd (get_firmware_version arrivals s))"
| call_get_attitude: "reachable s \<Longrightarrow> reachable (snd (get_attitude degrees arrivals s))"
| call_get_velocities: "reachable s \<Longrightarrow> reachable (snd (get_velocities arrivals s))"
| call_get_voltage: "reachable s \<Longrightarrow> reachable (snd (get_voltage arrivals s))"
| call_get_motors: "reachable s \<Longrightarrow> reachable (snd (get_motors arrivals s))"
| call_get_PID: "reachable s \<Longrightarrow> reachable (snd (get_PID arrivals s))"
| call_get_motor: "reachable s \<Longrightarrow> reachable (snd (get_motor motor arrivals s))"
| call_arm: "reachable s \<Longrightarrow> reachable (snd (arm s))"
| call_disarm: "reachable s \<Longrightarrow> reachable (snd (disarm s))"
| call_set_position_board: "reachable s \<Longrightarrow> reachable (snd (set_position_board b s))"
| call_set_mosquito_version: "reachable s \<Longrightarrow> reachable (snd (set_mosquito_version b s))"
| call_calibrate_ESCs: "reachable s \<Longrightarrow> reachable (snd (calibrate_ESCs s))"
| call_calibrate_transmitter: "reachable s \<Longrightarrow> reachable (snd (calibrate_transmitter stage s))"
| call_clear_EEPROM: "reachable s \<Longrightarrow> reachable (snd (clear_EEPROM section_no s))"
| call_stop: "reachable s \<Longrightarrow> reachable (snd (stop s))"
| call_execute_mission: "reachable s \<Longrightarrow> reachable (snd (execute_mission s))"
| call_take_off: "reachable s \<Longrightarrow> reachable (snd (take_off height s))"
| call_land: "reachable s \<Longrightarrow> reachable (snd (land s))"
| call_hover: "reachable s \<Longrightarrow> reachable (snd (hover time s))"
| call_change_height: "reachable s \<Longrightarrow> reachable (snd (change_height height s))"
| call_move_forward: "reachable s \<Longrightarrow> reachable (snd (move_forward time s))"
| call_move_backwards: "reachable s \<Longrightarrow> reachable (snd (move_backwards time s))"
| call_move_left: "reachable s \<Longrightarrow> reachable (snd (move_left time s))"
| call_move_right: "reachable s \<Longrightarrow> reachable (snd (move_right time s))"
| call_turn: "reachable s \<Longrightarrow> reachable (snd (turn angle s))"
| call_set_motors: "reachable s \<Longrightarrow> reachable (snd (set_motors values s))"
| call_set_motor: "reachable s \<Longrightarrow> reachable (snd (set_motor motor val s))"
| call_set_voltage: "reachable s \<Longrightarrow> reachable (snd (set_voltage v s))"
| call_set_PID: "reachable s \<Longrightarrow> reachable (snd (set_PID constants s))"
| call_set_leds: "reachable s \<Longrightarrow> reachable (snd (set_leds red green blue s))"

section \<open>Basic facts about the collaborators\<close>

lemma fst_send_data: "fst (send_data f s) = (if link_up s then Inr () else Inl IOError)"
  by (simp add: send_data_def Let_def)

lemma snd_send_data:
  "snd (send_data f s) =
     s\<lparr>calls := calls s @ [SendData f],
       outbox := (if link_up s then outbox s @ [f] else outbox s)\<rparr>"
  by (simp add: send_data_def Let_def)

lemma sends_only_send_data: "sends_only (send_data f) f s"
  by (simp add: sends_only_def send_data_def Let_def)

lemma and_then_send_data:
  "and_then (send_data f) k s =
     (if link_up s then k () (s\<lparr>calls := calls s @ [SendData f], outbox := outbox s @ [f]\<rparr>)
      else (Inl IOError, s\<lparr>calls := calls s @ [SendData f]\<rparr>))"
  by (simp add: and_then_def send_data_def Let_def)

lemma and_then_return_value:
  "and_then (return_value x) k s = (case x of Inl e \<Rightarrow> (Inl e, s) | Inr a \<Rightarrow> k a s)"
  by (simp add: and_then_def return_value_def split: sum.splits)

lemma fst_and_then_return:
  "fst (and_then m (\<lambda>v. return_value (k v)) s) =
     (case fst (m s) of Inl e \<Rightarrow> Inl e | Inr x \<Rightarrow> k x)"
  by (cases "m s") (auto simp: and_then_def return_value_def split: sum.splits)

text \<open>A dispatched frame changes nothing but the store of subscribers.\<close>

lemma dispatch_only_heap: "dispatch a s = s\<lparr>heap := heap (dispatch a s)\<rparr>"
  by (simp add: dispatch_def split: option.splits)

lemma snd_fresh_value: "snd (fresh_value r s) = s"
  by (simp add: fresh_value_def split: option.splits)

lemma fst_fresh_value:
  "fst (fresh_value r s) =
     (case latest_value (cells (heap s) r) of Some v \<Rightarrow> Inr v | None \<Rightarrow> Inl TimedOut)"
  by (simp add: fresh_value_def split: option.splits)

lemma await_fresh_fresh:
  "since < version (cells (heap s) r) \<Longrightarrow> await_fresh since r as s = fresh_value r s"
  by (induction since r as s rule: await_fresh.induct) simp_all

text \<open>A wait changes nothing but the store of subscribers and the state of the link.\<close>

lemma await_fresh_only_heap:
  "snd (await_fresh n r as s) =
     s\<lparr>heap := heap (snd (await_fresh n r as s)),
       link_up := link_up (snd (await_fresh n r as s))\<rparr>"
proof (induction n r as s rule: await_fresh.induct)
  case (1 since r s)
  show ?case by (simp add: snd_fresh_value)
next
  case (2 since r t v as s)
  have d: "dispatch (t, v) s = s\<lparr>heap := heap (dispatch (t, v) s)\<rparr>"
    by (rule dispatch_only_heap)
  show ?case
  proof (cases "since < version (cells (heap s) r)")
    case True
    then show ?thesis by (simp add: snd_fresh_value)
  next
    case False
    let ?s' = "snd (await_fresh since r as (dispatch (t, v) s))"
    have "?s' = (dispatch (t, v) s)\<lparr>heap := heap ?s', link_up := link_up ?s'\<rparr>"
      using False by (rule "2.IH")
    also have "\<dots> = s\<lparr>heap := heap ?s', link_up := link_up ?s'\<rparr>"
      by (subst d) simp
    finally show ?thesis using False by simp
  qed
next
  case (3 since r as s)
  show ?case by (simp add: snd_fresh_value)
qed

lemma await_fresh_calls: "calls (snd (await_fresh n r as s)) = calls s"
  by (subst await_fresh_only_heap) simp

lemma get_value_calls: "calls (snd (get_value r as s)) = calls s @ [GetValue r]"
  by (simp add: get_value_def await_fresh_calls)

lemma and_then_calls_get_value:
  "calls (snd (and_then (get_value r as) (\<lambda>v. return_value (k v)) s)) = calls s @ [GetValue r]"
  using get_value_calls [of r as s]
  by (cases "get_value r as s") (auto simp: and_then_def return_value_def split: sum.splits)

section \<open>The wiring is set up by the constructor and never changes\<close>

lemma wired_init: "wired Mosquito_init"
  by (simp add: wired_def Mosquito_init_def Subscriber_def empty_store_def Let_def)

lemma wired_wiring: "wired s \<Longrightarrow> wiring s' = wiring s \<Longrightarrow> wired s'"
  by (simp add: wiring_def wired_def)

lemma sub_of_wiring: "wiring s2 = wiring s1 \<Longrightarrow> sub_of s2 = sub_of s1"
  by (simp add: wiring_def sub_of_def fun_eq_iff split: msg_type.splits)

lemma wired_heap_update: "wired (s\<lparr>heap := h\<rparr>) = wired s"
  by (simp add: wired_def)

lemma wired_calls_update: "wired (s\<lparr>calls := c\<rparr>) = wired s"
  by (simp add: wired_def)

lemma wired_outbox_update: "wired (s\<lparr>outbox := c\<rparr>) = wired s"
  by (simp add: wired_def)

lemma sub_of_heap_update: "sub_of (s\<lparr>heap := h\<rparr>) = sub_of s"
  by (simp add: sub_of_def fun_eq_iff split: msg_type.splits)

lemma sub_of_calls_update: "sub_of (s\<lparr>calls := c\<rparr>) = sub_of s"
  by (simp add: sub_of_def fun_eq_iff split: msg_type.splits)

lemma sub_of_outbox_update: "sub_of (s\<lparr>outbox := c\<rparr>) = sub_of s"
  by (simp add: sub_of_def fun_eq_iff split: msg_type.splits)

lemma wired_dispatch: "wired (dispatch a s) = wired s"
  by (subst dispatch_only_heap) (simp add: wired_heap_update)

lemma sub_of_dispatch: "sub_of (dispatch a s) = sub_of s"
  by (subst dispatch_only_heap) (simp add: sub_of_heap_update)

lemma wired_handlers: "wired s \<Longrightarrow> handlers s t = Some (publisher (sub_of s t))"
  by (cases t) (simp_all add: wired_def sub_of_def)

lemma wired_sub_of_inj: "wired s \<Longrightarrow> t \<noteq> t' \<Longrightarrow> sub_of s t \<noteq> sub_of s t'"
  by (cases t; cases t') (auto simp: wired_def sub_of_def)

lemma wired_dispatch_cells:
  assumes "wired s"
  shows "cells (heap (dispatch (t, v) s)) =
           (cells (heap s))(sub_of s t := publish v (cells (heap s) (sub_of s t)))"
  using wired_handlers [OF assms, of t] by (simp add: dispatch_def publisher_def)

lemma wiring_updates:
  "wiring (s\<lparr>calls := c\<rparr>) = wiring s"
  "wiring (s\<lparr>outbox := ob\<rparr>) = wiring s"
  "wiring (s\<lparr>heap := h\<rparr>) = wiring s"
  "wiring (s\<lparr>link_up := up\<rparr>) = wiring s"
  "wiring (s\<lparr>motor_values := mv\<rparr>) = wiring s"
  "wiring (s\<lparr>led_status := ls\<rparr>) = wiring s"
  "wiring (s\<lparr>voltage := v\<rparr>) = wiring s"
  "wiring (s\<lparr>controller_constants := cc\<rparr>) = wiring s"
  by (simp_all add: wiring_def)

lemma wiring_send_data: "wiring (snd (send_data f s)) = wiring s"
  by (simp add: snd_send_data wiring_updates)

lemma wiring_dispatch: "wiring (dispatch a s) = wiring s"
  by (subst dispatch_only_heap) (simp add: wiring_updates)

lemma wiring_get_value: "wiring (snd (get_value r as s)) = wiring s"
  unfolding get_value_def by (subst await_fresh_only_heap) (simp add: wiring_updates)

lemma wiring_return_value: "wiring (snd (return_value x s)) = wiring s"
  by (simp add: return_value_def)

lemma wiring_and_then:
  assumes "\<And>s. wiring (snd (m s)) = wiring s" and "\<And>x s. wiring (snd (f x s)) = wiring s"
  shows "wiring (snd (and_then m f s)) = wiring s"
proof (cases "m s")
  case (Pair r s1)
  have s1: "wiring s1 = wiring s" using assms(1) [of s] Pair by simp
  show ?thesis
  proof (cases r)
    case (Inl e)
    then show ?thesis using Pair s1 by (simp add: and_then_def)
  next
    case (Inr x)
    then show ?thesis using Pair s1 assms(2) [of x s1] by (simp add: and_then_def)
  qed
qed

lemmas wiring_steps = wiring_and_then wiring_send_data wiring_get_value wiring_return_value

lemma wiring_getters:
  "wiring (snd (position_board_connected arrivals s)) = wiring s"
  "wiring (snd (get_firmware_version arrivals s)) = wiring s"
  "wiring (snd (get_attitude degrees arrivals s)) = wiring s"
  "wiring (snd (get_velocities arrivals s)) = wiring s"
  "wiring (snd (get_voltage arrivals s)) = wiring s"
  "wiring (snd (get_motors arrivals s)) = wiring s"
  "wiring (snd (get_PID arrivals s)) = wiring s"
  by (simp_all add: position_board_connected_def get_firmware_version_def get_attitude_def
      get_velocities_def get_voltage_def get_motors_def get_PID_def wiring_steps)

lemma wiring_get_motor: "wiring (snd (get_motor motor arrivals s)) = wiring s"
  by (simp add: get_motor_def wiring_steps wiring_getters)

lemma wiring_commands:
  "wiring (snd (arm s)) = wiring s"
  "wiring (snd (disarm s)) = wiring s"
  "wiring (snd (set_position_board b s)) = wiring s"
  "wiring (snd (set_mosquito_version b s)) = wiring s"
  "wiring (snd (calibrate_ESCs s)) = wiring s"
  "wiring (snd (calibrate_transmitter stage s)) = wiring s"
  "wiring (snd (clear_EEPROM section_no s)) = wiring s"
  "wiring (snd (stop s)) = wiring s"
  "wiring (snd (execute_mission s)) = wiring s"
  "wiring (snd (take_off height s)) = wiring s"
  "wiring (snd (land s)) = wiring s"
  "wiring (snd (hover time s)) = wiring s"
  "wiring (snd (change_height height s)) = wiring s"
  "wiring (snd (move_forward time s)) = wiring s"
  "wiring (snd (move_backwards time s)) = wiring s"
  "wiring (snd (move_left time s)) = wiring s"
  "wiring (snd (move_right time s)) = wiring s"
  "wiring (snd (turn angle s)) = wiring s"
  by (simp_all add: arm_def disarm_def set_position_board_def set_mosquito_version_def
      calibrate_ESCs_def calibrate_transmitter_def stop_def execute_mission_def take_off_def
      land_def hover_def change_height_def move_forward_def move_backwards_def move_left_def
      move_right_def turn_def clear_EEPROM_def wiring_send_data)

lemma wiring_set_motors: "wiring (snd (set_motors values s)) = wiring s"
  by (simp add: set_motors_def Let_def wiring_steps wiring_updates)

lemma wiring_set_motor: "wiring (snd (set_motor motor val s)) = wiring s"
  by (simp add: set_motor_def Let_def wiring_steps wiring_set_motors del: list.map)

lemma wiring_set_voltage: "wiring (snd (set_voltage v s)) = wiring s"
  by (simp add: set_voltage_def Let_def wiring_send_data wiring_updates)

lemma wiring_set_PID: "wiring (snd (set_PID constants s)) = wiring s"
  by (simp add: set_PID_def Let_def wiring_send_data wiring_updates)

lemma wiring_set_leds: "wiring (snd (set_leds red green blue s)) = wiring s"
  by (simp add: set_leds_def Let_def wiring_steps wiring_updates del: list.map zip_Cons_Cons)

lemma reachable_wired: "reachable s \<Longrightarrow> wired s"
proof (induction rule: reachable.induct)
  case init
  show ?case by (rule wired_init)
qed (erule wired_wiring, simp add: wiring_updates wiring_dispatch wiring_getters wiring_get_motor
    wiring_commands wiring_set_motors wiring_set_motor wiring_set_voltage wiring_set_PID
    wiring_set_leds)+

section \<open>What a wait returns\<close>

text \<open>
  No frame of the awaited type arrives: the wait ends with \<open>ConnectionClosed\<close> when the
  stream ends, and with \<open>TimedOut\<close> otherwise.
\<close>

lemma await_fresh_outcome:
  assumes "wired s" and "version (cells (heap s) (sub_of s T)) \<le> n"
    and "T \<notin> frame_types as"
  shows "fst (await_fresh n (sub_of s T) as s) =
           Inl (if EndOfStream \<in> set as then ConnectionClosed else TimedOut)"
  using assms
proof (induction as arbitrary: s)
  case Nil
  then show ?case by simp
next
  case (Cons a as)
  show ?case
  proof (cases a)
    case EndOfStream
    then show ?thesis using Cons.prems(2) by simp
  next
    case (Frame t v)
    from Cons.prems(3) Frame have tT: "t \<noteq> T" by auto
    have c: "cells (heap (dispatch (t, v) s)) (sub_of s T) = cells (heap s) (sub_of s T)"
      using wired_dispatch_cells [OF Cons.prems(1), of t v] wired_sub_of_inj [OF Cons.prems(1) tT]
      by simp
    have "fst (await_fresh n (sub_of (dispatch (t, v) s) T) as (dispatch (t, v) s)) =
            Inl (if EndOfStream \<in> set as then ConnectionClosed else TimedOut)"
    proof (rule Cons.IH)
      show "wired (dispatch (t, v) s)" using Cons.prems(1) by (simp add: wired_dispatch)
      show "version (cells (heap (dispatch (t, v) s)) (sub_of (dispatch (t, v) s) T)) \<le> n"
        using Cons.prems(2) c by (simp add: sub_of_dispatch)
      show "T \<notin> frame_types as" using Cons.prems(3) Frame by simp
    qed
    then show ?thesis using Cons.prems(2) Frame by (simp add: sub_of_dispatch)
  qed
qed

text \<open>The first frame of the awaited type that arrives is what the wait returns.\<close>

lemma await_fresh_received:
  assumes "wired s" and "version (cells (heap s) (sub_of s T)) = n"
    and "T \<notin> frame_types pre" and "EndOfStream \<notin> set pre"
  shows "fst (await_fresh n (sub_of s T) (pre @ Frame T v # post) s) = Inr v"
  using assms
proof (induction pre arbitrary: s)
  case Nil
  have c: "cells (heap (dispatch (T, v) s)) (sub_of s T) = publish v (cells (heap s) (sub_of s T))"
    using wired_dispatch_cells [OF Nil.prems(1), of T v] by simp
  have "n < version (cells (heap (dispatch (T, v) s)) (sub_of s T))"
    using Nil.prems(2) by (simp add: c publish_def)
  then have "await_fresh n (sub_of s T) post (dispatch (T, v) s) =
               fresh_value (sub_of s T) (dispatch (T, v) s)"
    by (rule await_fresh_fresh)
  then show ?case using Nil.prems(2) by (simp add: fst_fresh_value c publish_def)
next
  case (Cons a pre)
  from Cons.prems(4) obtain t w where a: "a = Frame t w" by (cases a) auto
  from Cons.prems(3) a have tT: "t \<noteq> T" by auto
  have c: "cells (heap (dispatch (t, w) s)) (sub_of s T) = cells (heap s) (sub_of s T)"
    using wired_dispatch_cells [OF Cons.prems(1), of t w] wired_sub_of_inj [OF Cons.prems(1) tT]
    by simp
  have "fst (await_fresh n (sub_of (dispatch (t, w) s) T) (pre @ Frame T v # post)
               (dispatch (t, w) s)) = Inr v"
  proof (rule Cons.IH)
    show "wired (dispatch (t, w) s)" using Cons.prems(1) by (simp add: wired_dispatch)
    show "version (cells (heap (dispatch (t, w) s)) (sub_of (dispatch (t, w) s) T)) = n"
      using Cons.prems(2) c by (simp add: sub_of_dispatch)
    show "T \<notin> frame_types pre" using Cons.prems(3) a by simp
    show "EndOfStream \<notin> set pre" using Cons.prems(4) by simp
  qed
  then show ?case using Cons.prems(2) a by (simp add: sub_of_dispatch)
qed

lemma get_value_outcome:
  assumes "wired s" and "T \<notin> frame_types as"
  shows "fst (get_value (sub_of s T) as s) =
           Inl (if EndOfStream \<in> set as then ConnectionClosed else TimedOut)"
proof -
  let ?s = "s\<lparr>calls := calls s @ [GetValue (sub_of s T)]\<rparr>"
  have "fst (await_fresh (version (cells (heap s) (sub_of s T))) (sub_of ?s T) as ?s)
          = Inl (if EndOfStream \<in> set as then ConnectionClosed else TimedOut)"
    by (rule await_fresh_outcome) (simp_all add: assms wired_calls_update sub_of_calls_update)
  then show ?thesis by (simp add: get_value_def sub_of_calls_update)
qed

lemma get_value_received:
  assumes "wired s" and "T \<notin> frame_types pre" and "EndOfStream \<notin> set pre"
  shows "fst (get_value (sub_of s T) (pre @ Frame T v # post) s) = Inr v"
proof -
  let ?s = "s\<lparr>calls := calls s @ [GetValue (sub_of s T)]\<rparr>"
  have "fst (await_fresh (version (cells (heap s) (sub_of s T))) (sub_of ?s T)
               (pre @ Frame T v # post) ?s) = Inr v"
    by (rule await_fresh_received) (simp_all add: assms wired_calls_update sub_of_calls_update)
  then show ?thesis by (simp add: get_value_def sub_of_calls_update)
qed

section \<open>What a getter's result depends on\<close>

lemma await_fresh_reads:
  assumes "heap s2 = heap s1" and "handlers s2 = handlers s1"
  shows "fst (await_fresh n r as s2) = fst (await_fresh n r as s1)"
  using assms
proof (induction as arbitrary: s1 s2)
  case Nil
  then show ?case by (simp add: fst_fresh_value)
next
  case (Cons a as)
  show ?case
  proof (cases a)
    case EndOfStream
    then show ?thesis using Cons.prems by (simp add: fst_fresh_value)
  next
    case (Frame t v)
    have h: "heap (dispatch (t, v) s2) = heap (dispatch (t, v) s1)"
      using Cons.prems by (simp add: dispatch_def split: option.splits)
    have k: "handlers (dispatch (t, v) s2) = handlers (dispatch (t, v) s1)"
      using Cons.prems by (simp add: dispatch_def split: option.splits)
    have "fst (await_fresh n r as (dispatch (t, v) s2)) =
          fst (await_fresh n r as (dispatch (t, v) s1))"
      using h k by (rule Cons.IH)
    then show ?thesis using Cons.prems(1) Frame by (simp add: fst_fresh_value)
  qed
qed

lemma get_value_reads:
  assumes "heap s2 = heap s1" and "handlers s2 = handlers s1"
  shows "fst (get_value r as s2) = fst (get_value r as s1)"
proof -
  have "fst (await_fresh (version (cells (heap s1) r)) r as (s2\<lparr>calls := calls s2 @ [GetValue r]\<rparr>))
      = fst (await_fresh (version (cells (heap s1) r)) r as (s1\<lparr>calls := calls s1 @ [GetValue r]\<rparr>))"
    by (rule await_fresh_reads) (simp_all add: assms)
  then show ?thesis by (simp add: get_value_def assms(1))
qed

lemma get_value_ignores_log:
  "fst (get_value r as (s\<lparr>calls := c, outbox := ob\<rparr>)) = fst (get_value r as s)"
  by (rule get_value_reads) simp_all

lemma getter_results:
  "fst (position_board_connected arrivals s) =
     (if link_up s
      then (case fst (get_value (position_board_connected_sub s) arrivals s) of
              Inl e \<Rightarrow> Inl e | Inr v \<Rightarrow> Inr (v \<noteq> []))
      else Inl IOError)"
  "fst (get_firmware_version arrivals s) =
     (if link_up s
      then (case fst (get_value (firmware_version_sub s) arrivals s) of
              Inl e \<Rightarrow> Inl e | Inr v \<Rightarrow> py_index v 0)
      else Inl IOError)"
  "fst (get_attitude degrees arrivals s) =
     (if link_up s
      then (case fst (get_value (attitude_sub s) arrivals s) of
              Inl e \<Rightarrow> Inl e
            | Inr v \<Rightarrow> Inr (if \<not> degrees then v else map (\<lambda>angle. angle * 180 / pi) v))
      else Inl IOError)"
  "fst (get_velocities arrivals s) =
     (if link_up s then fst (get_value (velocities_sub s) arrivals s) else Inl IOError)"
  "fst (get_voltage arrivals s) =
     (if link_up s
      then (case fst (get_value (voltage_sub s) arrivals s) of
              Inl e \<Rightarrow> Inl e | Inr v \<Rightarrow> py_index v 0)
      else Inl IOError)"
  "fst (get_motors arrivals s) =
     (if link_up s then fst (get_value (motors_sub s) arrivals s) else Inl IOError)"
  "fst (get_PID arrivals s) =
     (if link_up s then fst (get_value (PID_sub s) arrivals s) else Inl IOError)"
proof -
  show "fst (get_attitude degrees arrivals s) =
     (if link_up s
      then (case fst (get_value (attitude_sub s) arrivals s) of
              Inl e \<Rightarrow> Inl e
            | Inr v \<Rightarrow> Inr (if \<not> degrees then v else map (\<lambda>angle. angle * 180 / pi) v))
      else Inl IOError)"
    by (cases degrees)
      (simp_all add: get_attitude_def and_then_send_data fst_and_then_return get_value_ignores_log
        split: sum.splits)
qed (simp_all add: position_board_connected_def get_firmware_version_def get_velocities_def
      get_voltage_def get_motors_def get_PID_def and_then_send_data fst_and_then_return
      get_value_ignores_log)

lemma get_motor_result:
  "fst (get_motor motor arrivals s) =
     (case fst (get_motors arrivals s) of Inl e \<Rightarrow> Inl e | Inr v \<Rightarrow> py_index v (motor - 1))"
  by (simp add: get_motor_def fst_and_then_return)

text \<open>
  A getter's result is a function of the store, the handlers, the state of the link and
  the references to the subscribers: no other field of the facade is read.
\<close>

lemma getter_reads:
  assumes "heap s2 = heap s1" and "handlers s2 = handlers s1" and "link_up s2 = link_up s1"
    and "wiring s2 = wiring s1"
  shows "fst (position_board_connected arrivals s2) = fst (position_board_connected arrivals s1)"
    and "fst (get_firmware_version arrivals s2) = fst (get_firmware_version arrivals s1)"
    and "fst (get_attitude degrees arrivals s2) = fst (get_attitude degrees arrivals s1)"
    and "fst (get_velocities arrivals s2) = fst (get_velocities arrivals s1)"
    and "fst (get_voltage arrivals s2) = fst (get_voltage arrivals s1)"
    and "fst (get_motors arrivals s2) = fst (get_motors arrivals s1)"
    and "fst (get_motor motor arrivals s2) = fst (get_motor motor arrivals s1)"
    and "fst (get_PID arrivals s2) = fst (get_PID arrivals s1)"
proof -
  have g: "fst (get_value r arrivals s2) = fst (get_value r arrivals s1)" for r
    using assms(1,2) by (rule get_value_reads)
  have w: "position_board_connected_sub s2 = position_board_connected_sub s1"
    "firmware_version_sub s2 = firmware_version_sub s1" "attitude_sub s2 = attitude_sub s1"
    "velocities_sub s2 = velocities_sub s1" "motors_sub s2 = motors_sub s1"
    "voltage_sub s2 = voltage_sub s1" "PID_sub s2 = PID_sub s1"
    using assms(4) by (simp_all add: wiring_def)
  show "fst (position_board_connected arrivals s2) = fst (position_board_connected arrivals s1)"
    by (simp add: getter_results w assms(3) g)
  show "fst (get_firmware_version arrivals s2) = fst (get_firmware_version arrivals s1)"
    by (simp add: getter_results w assms(3) g)
  show "fst (get_attitude degrees arrivals s2) = fst (get_attitude degrees arrivals s1)"
    by (simp only: getter_results w assms(3) g)
  show "fst (get_velocities arrivals s2) = fst (get_velocities arrivals s1)"
    by (simp add: getter_results w assms(3) g)
  show "fst (get_voltage arrivals s2) = fst (get_voltage arrivals s1)"
    by (simp add: getter_results w assms(3) g)
  show m: "fst (get_motors arrivals s2) = fst (get_motors arrivals s1)"
    by (simp add: getter_results w assms(3) g)
  show "fst (get_motor motor arrivals s2) = fst (get_motor motor arrivals s1)"
    by (simp add: get_motor_result m)
  show "fst (get_PID arrivals s2) = fst (get_PID arrivals s1)"
    by (simp add: getter_results w assms(3) g)
qed

text \<open>Of the store, a wait on a subscriber reads that subscriber's cell only.\<close>

lemma await_fresh_own_cell:
  assumes "wired s1" and "wiring s2 = wiring s1"
    and "cells (heap s2) (sub_of s1 T) = cells (heap s1) (sub_of s1 T)"
  shows "fst (await_fresh n (sub_of s1 T) as s2) = fst (await_fresh n (sub_of s1 T) as s1)"
  using assms
proof (induction as arbitrary: s1 s2)
  case Nil
  then show ?case by (simp add: fst_fresh_value)
next
  case (Cons a as)
  show ?case
  proof (cases a)
    case EndOfStream
    then show ?thesis using Cons.prems(3) by (simp add: fst_fresh_value)
  next
    case (Frame t v)
    have w2: "wired s2" using Cons.prems(1,2) by (rule wired_wiring)
    have s2: "sub_of s2 = sub_of s1" using Cons.prems(2) by (rule sub_of_wiring)
    have c: "cells (heap (dispatch (t, v) s2)) (sub_of s1 T) =
             cells (heap (dispatch (t, v) s1)) (sub_of s1 T)"
      using Cons.prems(3)
      by (auto simp: wired_dispatch_cells [OF Cons.prems(1)] wired_dispatch_cells [OF w2] s2)
    have "fst (await_fresh n (sub_of (dispatch (t, v) s1) T) as (dispatch (t, v) s2)) =
          fst (await_fresh n (sub_of (dispatch (t, v) s1) T) as (dispatch (t, v) s1))"
    proof (rule Cons.IH)
      show "wired (dispatch (t, v) s1)" using Cons.prems(1) by (simp add: wired_dispatch)
      show "wiring (dispatch (t, v) s2) = wiring (dispatch (t, v) s1)"
        using Cons.prems(2) by (simp add: wiring_dispatch)
      show "cells (heap (dispatch (t, v) s2)) (sub_of (dispatch (t, v) s1) T) =
            cells (heap (dispatch (t, v) s1)) (sub_of (dispatch (t, v) s1) T)"
        using c by (simp add: sub_of_dispatch)
    qed
    then show ?thesis using Cons.prems(3) Frame by (simp add: sub_of_dispatch fst_fresh_value)
  qed
qed

lemma get_value_own_cell:
  assumes "wired s" and "r \<noteq> sub_of s T"
  shows "fst (get_value (sub_of s T) as (s\<lparr>heap := (heap s)\<lparr>cells := (cells (heap s))(r := c)\<rparr>\<rparr>)) =
         fst (get_value (sub_of s T) as s)"
proof -
  let ?h = "(heap s)\<lparr>cells := (cells (heap s))(r := c)\<rparr>"
  let ?s1 = "s\<lparr>calls := calls s @ [GetValue (sub_of s T)]\<rparr>"
  let ?s2 = "s\<lparr>heap := ?h, calls := calls s @ [GetValue (sub_of s T)]\<rparr>"
  have "fst (await_fresh (version (cells (heap s) (sub_of s T))) (sub_of ?s1 T) as ?s2) =
        fst (await_fresh (version (cells (heap s) (sub_of s T))) (sub_of ?s1 T) as ?s1)"
  proof (rule await_fresh_own_cell)
    show "wired ?s1" using assms(1) by (simp add: wired_calls_update)
    show "wiring ?s2 = wiring ?s1" by (simp add: wiring_def)
    show "cells (heap ?s2) (sub_of ?s1 T) = cells (heap ?s1) (sub_of ?s1 T)"
      using assms(2) by (simp add: sub_of_calls_update)
  qed
  then show ?thesis using assms(2) by (simp add: get_value_def sub_of_calls_update)
qed

section \<open>The stateful setters, step by step\<close>

lemma list4: "length xs = 4 \<Longrightarrow> \<exists>a b c d. xs = [a, b, c, d]"
  by (auto simp: numeral_eq_Suc length_Suc_conv)

lemma list3: "length xs = 3 \<Longrightarrow> \<exists>a b c. xs = [a, b, c]"
  by (auto simp: numeral_eq_Suc length_Suc_conv)

lemma set_motor_values:
  assumes "length (motor_values s) = 4" and "1 \<le> motor" and "motor \<le> 4"
  shows "collect (map (\<lambda>i. if i \<noteq> motor - 1 then py_index (motor_values s) i else Inr val)
           [0, 1, 2, 3]) = Inr ((motor_values s)[nat (motor - 1) := val])"
proof -
  obtain a b c d where m: "motor_values s = [a, b, c, d]"
    using list4 [OF assms(1)] by blast
  from assms(2,3) have "motor = 1 \<or> motor = 2 \<or> motor = 3 \<or> motor = 4" by arith
  then show ?thesis by (auto simp: m py_index_def)
qed

lemma set_motors_sends:
  "length values = 4 \<Longrightarrow>
   set_motors values s =
     send_data (SET_MOTOR_NORMAL values) (s\<lparr>motor_values := values\<rparr>)"
  by (simp add: set_motors_def Let_def and_then_return_value serialize_SET_MOTOR_NORMAL_def)

lemma set_motor_sends:
  assumes "length (motor_values s) = 4" and "1 \<le> motor" and "motor \<le> 4"
  shows "set_motor motor val s =
     send_data (SET_MOTOR_NORMAL ((motor_values s)[nat (motor - 1) := val]))
       (s\<lparr>motor_values := (motor_values s)[nat (motor - 1) := val]\<rparr>)"
proof -
  let ?p = "(motor_values s)[nat (motor - 1) := val]"
  have len: "length ?p = 4" using assms(1) by simp
  have "set_motor motor val s = and_then (return_value (Inr ?p)) set_motors s"
    using assms by (simp only: set_motor_def Let_def set_motor_values)
  then show ?thesis
    by (simp add: and_then_return_value set_motors_sends [OF len])
qed

lemma set_leds_sends:
  assumes "length (led_status s) = 3"
  shows "set_leds red green blue s =
     send_data (SET_LEDS
         [case red of None \<Rightarrow> led_status s ! 0 | Some x \<Rightarrow> x,
          case green of None \<Rightarrow> led_status s ! 1 | Some x \<Rightarrow> x,
          case blue of None \<Rightarrow> led_status s ! 2 | Some x \<Rightarrow> x])
       (s\<lparr>led_status :=
         [case red of None \<Rightarrow> led_status s ! 0 | Some x \<Rightarrow> x,
          case green of None \<Rightarrow> led_status s ! 1 | Some x \<Rightarrow> x,
          case blue of None \<Rightarrow> led_status s ! 2 | Some x \<Rightarrow> x]\<rparr>)"
proof -
  obtain a b c where m: "led_status s = [a, b, c]"
    using list3 [OF assms] by blast
  show ?thesis
    by (simp add: set_leds_def m py_index_def and_then_return_value Let_def
        serialize_SET_LEDS_def split: option.splits)
qed

lemma init_fields:
  "link_up Mosquito_init"
  "calls Mosquito_init = []"
  "outbox Mosquito_init = []"
  "motor_values Mosquito_init = [0, 0, 0, 0]"
  "led_status Mosquito_init = [0, 0, 0]"
  "voltage_sub Mosquito_init = 5"
  by (simp_all add: Mosquito_init_def Subscriber_def empty_store_def Let_def numeral_eq_Suc)

section \<open>The LED cache always holds three states\<close>

lemma led_status_send_data: "led_status (snd (send_data f s)) = led_status s"
  by (simp add: snd_send_data)

lemma led_status_dispatch: "led_status (dispatch a s) = led_status s"
  by (subst dispatch_only_heap) simp

lemma led_status_get_value: "led_status (snd (get_value r as s)) = led_status s"
  unfolding get_value_def by (subst await_fresh_only_heap) simp

lemma led_status_return_value: "led_status (snd (return_value x s)) = led_status s"
  by (simp add: return_value_def)

lemma led_status_and_then:
  assumes "\<And>s. led_status (snd (m s)) = led_status s"
    and "\<And>x s. led_status (snd (f x s)) = led_status s"
  shows "led_status (snd (and_then m f s)) = led_status s"
proof (cases "m s")
  case (Pair r s1)
  have s1: "led_status s1 = led_status s" using assms(1) [of s] Pair by simp
  show ?thesis
  proof (cases r)
    case (Inl e)
    then show ?thesis using Pair s1 by (simp add: and_then_def)
  next
    case (Inr x)
    then show ?thesis using Pair s1 assms(2) [of x s1] by (simp add: and_then_def)
  qed
qed

lemmas led_status_steps =
  led_status_and_then led_status_send_data led_status_get_value led_status_return_value

lemma led_status_getters:
  "led_status (snd (position_board_connected arrivals s)) = led_status s"
  "led_status (snd (get_firmware_version arrivals s)) = led_status s"
  "led_status (snd (get_attitude degrees arrivals s)) = led_status s"
  "led_status (snd (get_velocities arrivals s)) = led_status s"
  "led_status (snd (get_voltage arrivals s)) = led_status s"
  "led_status (snd (get_motors arrivals s)) = led_status s"
  "led_status (snd (get_PID arrivals s)) = led_status s"
  by (simp_all add: position_board_connected_def get_firmware_version_def get_attitude_def
      get_velocities_def get_voltage_def get_motors_def get_PID_def led_status_steps)

lemma led_status_get_motor: "led_status (snd (get_motor motor arrivals s)) = led_status s"
  by (simp add: get_motor_def led_status_steps led_status_getters)

lemma led_status_commands:
  "led_status (snd (arm s)) = led_status s"
  "led_status (snd (disarm s)) = led_status s"
  "led_status (snd (set_position_board b s)) = led_status s"
  "led_status (snd (set_mosquito_version b s)) = led_status s"
  "led_status (snd (calibrate_ESCs s)) = led_status s"
  "led_status (snd (calibrate_transmitter stage s)) = led_status s"
  "led_status (snd (clear_EEPROM section_no s)) = led_status s"
  "led_status (snd (stop s)) = led_status s"
  "led_status (snd (execute_mission s)) = led_status s"
  "led_status (snd (take_off height s)) = led_status s"
  "led_status (snd (land s)) = led_status s"
  "led_status (snd (hover time s)) = led_status s"
  "led_status (snd (change_height height s)) = led_status s"
  "led_status (snd (move_forward time s)) = led_status s"
  "led_status (snd (move_backwards time s)) = led_status s"
  "led_status (snd (move_left time s)) = led_status s"
  "led_status (snd (move_right time s)) = led_status s"
  "led_status (snd (turn angle s)) = led_status s"
  by (simp_all add: arm_def disarm_def set_position_board_def set_mosquito_version_def
      calibrate_ESCs_def calibrate_transmitter_def stop_def execute_mission_def take_off_def
      land_def hover_def change_height_def move_forward_def move_backwards_def move_left_def
      move_right_def turn_def clear_EEPROM_def led_status_send_data)

lemma led_status_set_motors: "led_status (snd (set_motors values s)) = led_status s"
  by (simp add: set_motors_def Let_def led_status_steps)

lemma led_status_set_motor: "led_status (snd (set_motor motor val s)) = led_status s"
  by (simp add: set_motor_def Let_def led_status_steps led_status_set_motors del: list.map)

lemma led_status_set_voltage: "led_status (snd (set_voltage v s)) = led_status s"
  by (simp add: set_voltage_def Let_def led_status_send_data)

lemma led_status_set_PID: "led_status (snd (set_PID constants s)) = led_status s"
  by (simp add: set_PID_def Let_def led_status_send_data)

lemma set_leds_length:
  "length (led_status s) = 3 \<Longrightarrow> length (led_status (snd (set_leds red green blue s))) = 3"
  by (simp add: set_leds_sends snd_send_data)

lemma reachable_led_status: "reachable s \<Longrightarrow> length (led_status s) = 3"
proof (induction rule: reachable.induct)
  case init
  show ?case by (simp add: init_fields)
qed (simp_all add: led_status_dispatch led_status_getters led_status_get_motor
    led_status_commands led_status_set_motors led_status_set_motor led_status_set_voltage
    led_status_set_PID set_leds_length)

section \<open>The getter of the spec, for comparison\<close>

lemma spec_getter_calls:
  "calls (snd (spec_getter r request arrivals s)) = calls s @
     (if link_up s
      then [ReadVersion r, SendData request, AwaitFresh r (version (cells (heap s) r))]
      else [ReadVersion r, SendData request])"
  by (simp add: spec_getter_def Let_def and_then_send_data split_beta await_fresh_calls)

lemma spec_getter_timeout:
  assumes "wired s" and "link_up s" and "T \<notin> frame_types arrivals"
    and "EndOfStream \<notin> set arrivals"
  shows "fst (spec_getter (sub_of s T) request arrivals s) = Inl RequestTimeout"
proof -
  let ?n = "version (cells (heap s) (sub_of s T))"
  have o: "fst (await_fresh ?n (sub_of s T) arrivals s) = Inl TimedOut"
    using await_fresh_outcome [OF assms(1) _ assms(3), of ?n] assms(4) by simp
  have "fst (await_fresh ?n (sub_of s T) arrivals s') = Inl TimedOut"
    if "heap s' = heap s" and "handlers s' = handlers s" for s'
    using await_fresh_reads [OF that, of ?n "sub_of s T" arrivals] o by simp
  then show ?thesis
    using assms(2) by (simp add: spec_getter_def Let_def and_then_send_data split_beta)
qed

text \<open>
  Why the order matters: a reply that the parser thread dispatches after the request was
  sent and before the wait begins is not seen by \<^verbatim>\<open>get_value()\<close>, which looks for a
  value fresher than the one it finds on entry, and is seen by a wait for a value fresher
  than the version recorded before the send.
\<close>

lemma reply_before_wait:
  assumes "wired s"
  shows "fst (get_value (sub_of s T) [] (dispatch (T, v) (snd (send_data request s)))) =
           Inl TimedOut"
    and "fst (await_fresh (version (cells (heap s) (sub_of s T))) (sub_of s T) []
               (dispatch (T, v) (snd (send_data request s)))) = Inr v"
proof -
  let ?s = "snd (send_data request s)"
  have w: "wired ?s" using assms by (simp add: snd_send_data wired_calls_update wired_outbox_update)
  have so: "sub_of ?s = sub_of s" by (simp add: snd_send_data sub_of_calls_update sub_of_outbox_update)
  have h: "heap ?s = heap s" by (simp add: snd_send_data)
  have c: "cells (heap (dispatch (T, v) ?s)) (sub_of s T) = publish v (cells (heap s) (sub_of s T))"
    using wired_dispatch_cells [OF w, of T v] by (simp add: so h)
  show "fst (get_value (sub_of s T) [] (dispatch (T, v) ?s)) = Inl TimedOut"
    by (simp add: get_value_def)
  show "fst (await_fresh (version (cells (heap s) (sub_of s T))) (sub_of s T) []
               (dispatch (T, v) ?s)) = Inr v"
    by (simp add: c publish_def fst_fresh_value)
qed

section \<open>Telemetry getters: order of the calls\<close>

text \<open>
  Claim C1, as the code has it. Every telemetry getter does two things with its
  collaborators, in this order: it hands its request frame to \<^verbatim>\<open>_send_data\<close>, and
  only then calls \<^verbatim>\<open>get_value()\<close> on its own subscriber, where it blocks. The
  getter itself never reads the subscriber's version (there is no \<open>ReadVersion\<close> among
  its calls), so no version is recorded ahead of the send. What it returns is what \<^verbatim>\<open>get_value()\<close> returned in the state after the send, indexed or
  converted by the getter. When the send fails the getter fails with \<open>IOError\<close>,
  \<^verbatim>\<open>get_value()\<close> is not called and nothing but the call log has changed.
\<close>

theorem getter_sends_then_waits:
  "position_board_connected arrivals s =
     (if link_up s
      then and_then (get_value (position_board_connected_sub s) arrivals)
           (\<lambda>v. return_value (Inr (v \<noteq> [])))
           (snd (send_data POSITION_BOARD_CONNECTED_Request s))
      else (Inl IOError, s\<lparr>calls := calls s @ [SendData POSITION_BOARD_CONNECTED_Request]\<rparr>)) \<and>
   calls (snd (position_board_connected arrivals s)) = calls s @
     (if link_up s
      then [SendData POSITION_BOARD_CONNECTED_Request, GetValue (position_board_connected_sub s)]
      else [SendData POSITION_BOARD_CONNECTED_Request]) \<and>
   get_firmware_version arrivals s =
     (if link_up s
      then and_then (get_value (firmware_version_sub s) arrivals)
           (\<lambda>v. return_value (py_index v 0))
           (snd (send_data FIRMWARE_VERSION_Request s))
      else (Inl IOError, s\<lparr>calls := calls s @ [SendData FIRMWARE_VERSION_Request]\<rparr>)) \<and>
   calls (snd (get_firmware_version arrivals s)) = calls s @
     (if link_up s
      then [SendData FIRMWARE_VERSION_Request, GetValue (firmware_version_sub s)]
      else [SendData FIRMWARE_VERSION_Request]) \<and>
   get_attitude degrees arrivals s =
     (if link_up s
      then and_then (get_value (attitude_sub s) arrivals)
           (\<lambda>attitude. if \<not> degrees then return_value (Inr attitude)
             else return_value (Inr (map (\<lambda>angle. angle * 180 / pi) attitude)))
           (snd (send_data ATTITUDE_RADIANS_Request s))
      else (Inl IOError, s\<lparr>calls := calls s @ [SendData ATTITUDE_RADIANS_Request]\<rparr>)) \<and>
   calls (snd (get_attitude degrees arrivals s)) = calls s @
     (if link_up s
      then [SendData ATTITUDE_RADIANS_Request, GetValue (attitude_sub s)]
      else [SendData ATTITUDE_RADIANS_Request]) \<and>
   get_velocities arrivals s =
     (if link_up s
      then get_value (velocities_sub s) arrivals (snd (send_data GET_VELOCITIES_Request s))
      else (Inl IOError, s\<lparr>calls := calls s @ [SendData GET_VELOCITIES_Request]\<rparr>)) \<and>
   calls (snd (get_velocities arrivals s)) = calls s @
     (if link_up s
      then [SendData GET_VELOCITIES_Request, GetValue (velocities_sub s)]
      else [SendData GET_VELOCITIES_Request]) \<and>
   get_voltage arrivals s =
     (if link_up s
      then and_then (get_value (voltage_sub s) arrivals)
           (\<lambda>v. return_value (py_index v 0))
           (snd (send_data GET_BATTERY_VOLTAGE_Request s))
      else (Inl IOError, s\<lparr>calls := calls s @ [SendData GET_BATTERY_VOLTAGE_Request]\<rparr>)) \<and>
   calls (snd (get_voltage arrivals s)) = calls s @
     (if link_up s
      then [SendData GET_BATTERY_VOLTAGE_Request, GetValue (voltage_sub s)]
      else [SendData GET_BATTERY_VOLTAGE_Request]) \<and>
   get_motors arrivals s =
     (if link_up s
      then get_value (motors_sub s) arrivals (snd (send_data GET_MOTOR_NORMAL_Request s))
      else (Inl IOError, s\<lparr>calls := calls s @ [SendData GET_MOTOR_NORMAL_Request]\<rparr>)) \<and>
   calls (snd (get_motors arrivals s)) = calls s @
     (if link_up s
      then [SendData GET_MOTOR_NORMAL_Request, GetValue (motors_sub s)]
      else [SendData GET_MOTOR_NORMAL_Request]) \<and>
   get_PID arrivals s =
     (if link_up s
      then get_value (PID_sub s) arrivals (snd (send_data GET_PID_CONSTANTS_Request s))
      else (Inl IOError, s\<lparr>calls := calls s @ [SendData GET_PID_CONSTANTS_Request]\<rparr>)) \<and>
   calls (snd (get_PID arrivals s)) = calls s @
     (if link_up s
      then [SendData GET_PID_CONSTANTS_Request, GetValue (PID_sub s)]
      else [SendData GET_PID_CONSTANTS_Request])"
proof -
  have e0: "position_board_connected arrivals s =
         (if link_up s
          then and_then (get_value (position_board_connected_sub s) arrivals)
               (\<lambda>v. return_value (Inr (v \<noteq> [])))
               (snd (send_data POSITION_BOARD_CONNECTED_Request s))
          else (Inl IOError, s\<lparr>calls := calls s @ [SendData POSITION_BOARD_CONNECTED_Request]\<rparr>))"
    by (cases "link_up s") (simp_all add: position_board_connected_def and_then_send_data snd_send_data)
  have c0: "calls (snd (position_board_connected arrivals s)) = calls s @
         (if link_up s
          then [SendData POSITION_BOARD_CONNECTED_Request, GetValue (position_board_connected_sub s)]
          else [SendData POSITION_BOARD_CONNECTED_Request])"
    by (simp add: position_board_connected_def and_then_send_data and_then_calls_get_value get_value_calls)
  have e1: "get_firmware_version arrivals s =
         (if link_up s
          then and_then (get_value (firmware_version_sub s) arrivals)
               (\<lambda>v. return_value (py_index v 0))
               (snd (send_data FIRMWARE_VERSION_Request s))
          else (Inl IOError, s\<lparr>calls := calls s @ [SendData FIRMWARE_VERSION_Request]\<rparr>))"
    by (cases "link_up s") (simp_all add: get_firmware_version_def and_then_send_data snd_send_data)
  have c1: "calls (snd (get_firmware_version arrivals s)) = calls s @
         (if link_up s
          then [SendData FIRMWARE_VERSION_Request, GetValue (firmware_version_sub s)]
          else [SendData FIRMWARE_VERSION_Request])"
    by (simp add: get_firmware_version_def and_then_send_data and_then_calls_get_value get_value_calls)
  have e2: "get_attitude degrees arrivals s =
         (if link_up s
          then and_then (get_value (attitude_sub s) arrivals)
               (\<lambda>attitude. if \<not> degrees then return_value (Inr attitude)
                 else return_value (Inr (map (\<lambda>angle. angle * 180 / pi) attitude)))
               (snd (send_data ATTITUDE_RADIANS_Request s))
          else (Inl IOError, s\<lparr>calls := calls s @ [SendData ATTITUDE_RADIANS_Request]\<rparr>))"
    by (cases "link_up s") (simp_all add: get_attitude_def and_then_send_data snd_send_data)
  have c2: "calls (snd (get_attitude degrees arrivals s)) = calls s @
         (if link_up s
          then [SendData ATTITUDE_RADIANS_Request, GetValue (attitude_sub s)]
          else [SendData ATTITUDE_RADIANS_Request])"
    by (cases degrees) (simp_all add: get_attitude_def and_then_send_data and_then_calls_get_value)
  have e3: "get_velocities arrivals s =
         (if link_up s
          then get_value (velocities_sub s) arrivals (snd (send_data GET_VELOCITIES_Request s))
          else (Inl IOError, s\<lparr>calls := calls s @ [SendData GET_VELOCITIES_Request]\<rparr>))"
    by (cases "link_up s") (simp_all add: get_velocities_def and_then_send_data snd_send_data)
  have c3: "calls (snd (get_velocities arrivals s)) = calls s @
         (if link_up s
          then [SendData GET_VELOCITIES_Request, GetValue (velocities_sub s)]
          else [SendData GET_VELOCITIES_Request])"
    by (simp add: get_velocities_def and_then_send_data and_then_calls_get_value get_value_calls)
  have e4: "get_voltage arrivals s =
         (if link_up s
          then and_then (get_value (voltage_sub s) arrivals)
               (\<lambda>v. return_value (py_index v 0))
               (snd (send_data GET_BATTERY_VOLTAGE_Request s))
          else (Inl IOError, s\<lparr>calls := calls s @ [SendData GET_BATTERY_VOLTAGE_Request]\<rparr>))"
    by (cases "link_up s") (simp_all add: get_voltage_def and_then_send_data snd_send_data)
  have c4: "calls (snd (get_voltage arrivals s)) = calls s @
         (if link_up s
          then [SendData GET_BATTERY_VOLTAGE_Request, GetValue (voltage_sub s)]
          else [SendData GET_BATTERY_VOLTAGE_Request])"
    by (simp add: get_voltage_def and_then_send_data and_then_calls_get_value get_value_calls)
  have e5: "get_motors arrivals s =
         (if link_up s
          then get_value (motors_sub s) arrivals (snd (send_data GET_MOTOR_NORMAL_Request s))
          else (Inl IOError, s\<lparr>calls := calls s @ [SendData GET_MOTOR_NORMAL_Request]\<rparr>))"
    by (cases "link_up s") (simp_all add: get_motors_def and_then_send_data snd_send_data)
  have c5: "calls (snd (get_motors arrivals s)) = calls s @
         (if link_up s
          then [SendData GET_MOTOR_NORMAL_Request, GetValue (motors_sub s)]
          else [SendData GET_MOTOR_NORMAL_Request])"
    by (simp add: get_motors_def and_then_send_data and_then_calls_get_value get_value_calls)
  have e6: "get_PID arrivals s =
         (if link_up s
          then get_value (PID_sub s) arrivals (snd (send_data GET_PID_CONSTANTS_Request s))
          else (Inl IOError, s\<lparr>calls := calls s @ [SendData GET_PID_CONSTANTS_Request]\<rparr>))"
    by (cases "link_up s") (simp_all add: get_PID_def and_then_send_data snd_send_data)
  have c6: "calls (snd (get_PID arrivals s)) = calls s @
         (if link_up s
          then [SendData GET_PID_CONSTANTS_Request, GetValue (PID_sub s)]
          else [SendData GET_PID_CONSTANTS_Request])"
    by (simp add: get_PID_def and_then_send_data and_then_calls_get_value get_value_calls)
  show ?thesis
    by (intro conjI) (rule e0 c0 e1 c1 e2 c2 e3 c3 e4 c4 e5 c5 e6 c6)+
qed

text \<open>
  Against claim C1 as stated (the version is recorded first, then the frame is sent):
  on the freshly constructed facade, with a voltage reply arriving during the wait, the
  whole sequence of calls of \<^verbatim>\<open>get_voltage\<close> is the send followed by the wait. The
  send is the first thing that happens and no version is read. The getter of the spec
  reads the version first, in the same situation.
\<close>

theorem getter_order_counterexample:
  "calls (snd (get_voltage [Frame GET_BATTERY_VOLTAGE [74 / 10]] Mosquito_init)) =
     [SendData GET_BATTERY_VOLTAGE_Request, GetValue (voltage_sub Mosquito_init)] \<and>
   calls (snd (spec_getter (voltage_sub Mosquito_init) GET_BATTERY_VOLTAGE_Request
                 [Frame GET_BATTERY_VOLTAGE [74 / 10]] Mosquito_init)) =
     [ReadVersion (voltage_sub Mosquito_init), SendData GET_BATTERY_VOLTAGE_Request,
      AwaitFresh (voltage_sub Mosquito_init) 0]"
  by (simp add: get_voltage_def and_then_send_data and_then_calls_get_value spec_getter_calls
      init_fields Mosquito_init_def Subscriber_def empty_store_def Let_def)

section \<open>Telemetry getters: timeouts\<close>

text \<open>
  Claim C2, as the code has it. A getter of \<^verbatim>\<open>mapi.py\<close> takes no timeout and turns
  no failure into another: whatever failure \<^verbatim>\<open>get_value()\<close> signals is the getter's
  failure, unchanged. So, in every state the facade can reach, when no frame of the
  getter's message type arrives before the wait is over, the getter fails with the wait's
  own \<open>TimedOut\<close> (with \<open>ConnectionClosed\<close> when the stream ended, with \<open>IOError\<close>
  when the request could not be sent), not with \<open>RequestTimeout\<close>. It returns no value
  at all then, so neither a default nor a zero; this holds for \<^verbatim>\<open>get_voltage\<close> in
  particular, and for \<^verbatim>\<open>get_motor\<close>, which goes through \<^verbatim>\<open>get_motors\<close>.
\<close>

theorem getter_passes_failure_on:
  assumes "reachable s"
  shows
    "(POSITION_BOARD_CONNECTED \<notin> frame_types arrivals \<longrightarrow>
        fst (position_board_connected arrivals s) =
          Inl (if \<not> link_up s then IOError
               else if EndOfStream \<in> set arrivals then ConnectionClosed else TimedOut)) \<and>
     (link_up s \<and>
      fst (get_value (position_board_connected_sub s) arrivals (snd (send_data POSITION_BOARD_CONNECTED_Request s))) = Inl e \<longrightarrow>
        fst (position_board_connected arrivals s) = Inl e) \<and>
     (FIRMWARE_VERSION \<notin> frame_types arrivals \<longrightarrow>
        fst (get_firmware_version arrivals s) =
          Inl (if \<not> link_up s then IOError
               else if EndOfStream \<in> set arrivals then ConnectionClosed else TimedOut)) \<and>
     (link_up s \<and>
      fst (get_value (firmware_version_sub s) arrivals (snd (send_data FIRMWARE_VERSION_Request s))) = Inl e \<longrightarrow>
        fst (get_firmware_version arrivals s) = Inl e) \<and>
     (ATTITUDE_RADIANS \<notin> frame_types arrivals \<longrightarrow>
        fst (get_attitude degrees arrivals s) =
          Inl (if \<not> link_up s then IOError
               else if EndOfStream \<in> set arrivals then ConnectionClosed else TimedOut)) \<and>
     (link_up s \<and>
      fst (get_value (attitude_sub s) arrivals (snd (send_data ATTITUDE_RADIANS_Request s))) = Inl e \<longrightarrow>
        fst (get_attitude degrees arrivals s) = Inl e) \<and>
     (GET_VELOCITIES \<notin> frame_types arrivals \<longrightarrow>
        fst (get_velocities arrivals s) =
          Inl (if \<not> link_up s then IOError
               else if EndOfStream \<in> set arrivals then ConnectionClosed else TimedOut)) \<and>
     (link_up s \<and>
      fst (get_value (velocities_sub s) arrivals (snd (send_data GET_VELOCITIES_Request s))) = Inl e \<longrightarrow>
        fst (get_velocities arrivals s) = Inl e) \<and>
     (GET_BATTERY_VOLTAGE \<notin> frame_types arrivals \<longrightarrow>
        fst (get_voltage arrivals s) =
          Inl (if \<not> link_up s then IOError
               else if EndOfStream \<in> set arrivals then ConnectionClosed else TimedOut)) \<and>
     (link_up s \<and>
      fst (get_value (voltage_sub s) arrivals (snd (send_data GET_BATTERY_VOLTAGE_Request s))) = Inl e \<longrightarrow>
        fst (get_voltage arrivals s) = Inl e) \<and>
     (GET_MOTOR_NORMAL \<notin> frame_types arrivals \<longrightarrow>
        fst (get_motors arrivals s) =
          Inl (if \<not> link_up s then IOError
               else if EndOfStream \<in> set arrivals then ConnectionClosed else TimedOut)) \<and>
     (link_up s \<and>
      fst (get_value (motors_sub s) arrivals (snd (send_data GET_MOTOR_NORMAL_Request s))) = Inl e \<longrightarrow>
        fst (get_motors arrivals s) = Inl e) \<and>
     (GET_PID_CONSTANTS \<notin> frame_types arrivals \<longrightarrow>
        fst (get_PID arrivals s) =
          Inl (if \<not> link_up s then IOError
               else if EndOfStream \<in> set arrivals then ConnectionClosed else TimedOut)) \<and>
     (link_up s \<and>
      fst (get_value (PID_sub s) arrivals (snd (send_data GET_PID_CONSTANTS_Request s))) = Inl e \<longrightarrow>
        fst (get_PID arrivals s) = Inl e) \<and>
     (GET_MOTOR_NORMAL \<notin> frame_types arrivals \<longrightarrow>
        fst (get_motor motor arrivals s) =
          Inl (if \<not> link_up s then IOError
               else if EndOfStream \<in> set arrivals then ConnectionClosed else TimedOut)) \<and>
     (fst (get_motors arrivals s) = Inl e \<longrightarrow> fst (get_motor motor arrivals s) = Inl e)"
proof -
  have w: "wired s" using assms by (rule reachable_wired)
  have t0: "(POSITION_BOARD_CONNECTED \<notin> frame_types arrivals \<longrightarrow>
            fst (position_board_connected arrivals s) =
              Inl (if \<not> link_up s then IOError
                   else if EndOfStream \<in> set arrivals then ConnectionClosed else TimedOut))"
    using get_value_outcome [OF w, of POSITION_BOARD_CONNECTED arrivals]
    by (simp add: getter_results sub_of_def)
  have p0: "(link_up s \<and>
      fst (get_value (position_board_connected_sub s) arrivals (snd (send_data POSITION_BOARD_CONNECTED_Request s))) = Inl e \<longrightarrow>
            fst (position_board_connected arrivals s) = Inl e)"
    by (simp add: getter_results snd_send_data get_value_ignores_log)
  have t1: "(FIRMWARE_VERSION \<notin> frame_types arrivals \<longrightarrow>
            fst (get_firmware_version arrivals s) =
              Inl (if \<not> link_up s then IOError
                   else if EndOfStream \<in> set arrivals then ConnectionClosed else TimedOut))"
    using get_value_outcome [OF w, of FIRMWARE_VERSION arrivals]
    by (simp add: getter_results sub_of_def)
  have p1: "(link_up s \<and>
      fst (get_value (firmware_version_sub s) arrivals (snd (send_data FIRMWARE_VERSION_Request s))) = Inl e \<longrightarrow>
            fst (get_firmware_version arrivals s) = Inl e)"
    by (simp add: getter_results snd_send_data get_value_ignores_log)
  have t2: "(ATTITUDE_RADIANS \<notin> frame_types arrivals \<longrightarrow>
            fst (get_attitude degrees arrivals s) =
              Inl (if \<not> link_up s then IOError
                   else if EndOfStream \<in> set arrivals then ConnectionClosed else TimedOut))"
    using get_value_outcome [OF w, of ATTITUDE_RADIANS arrivals]
    by (simp add: getter_results sub_of_def)
  have p2: "(link_up s \<and>
      fst (get_value (attitude_sub s) arrivals (snd (send_data ATTITUDE_RADIANS_Request s))) = Inl e \<longrightarrow>
            fst (get_attitude degrees arrivals s) = Inl e)"
    by (simp add: getter_results snd_send_data get_value_ignores_log)
  have t3: "(GET_VELOCITIES \<notin> frame_types arrivals \<longrightarrow>
            fst (get_velocities arrivals s) =
              Inl (if \<not> link_up s then IOError
                   else if EndOfStream \<in> set arrivals then ConnectionClosed else TimedOut))"
    using get_value_outcome [OF w, of GET_VELOCITIES arrivals]
    by (simp add: getter_results sub_of_def)
  have p3: "(link_up s \<and>
      fst (get_value (velocities_sub s) arrivals (snd (send_data GET_VELOCITIES_Request s))) = Inl e \<longrightarrow>
            fst (get_velocities arrivals s) = Inl e)"
    by (simp add: getter_results snd_send_data get_value_ignores_log)
  have t4: "(GET_BATTERY_VOLTAGE \<notin> frame_types arrivals \<longrightarrow>
            fst (get_voltage arrivals s) =
              Inl (if \<not> link_up s then IOError
                   else if EndOfStream \<in> set arrivals then ConnectionClosed else TimedOut))"
    using get_value_outcome [OF w, of GET_BATTERY_VOLTAGE arrivals]
    by (simp add: getter_results sub_of_def)
  have p4: "(link_up s \<and>
      fst (get_value (voltage_sub s) arrivals (snd (send_data GET_BATTERY_VOLTAGE_Request s))) = Inl e \<longrightarrow>
            fst (get_voltage arrivals s) = Inl e)"
    by (simp add: getter_results snd_send_data get_value_ignores_log)
  have t5: "(GET_MOTOR_NORMAL \<notin> frame_types arrivals \<longrightarrow>
            fst (get_motors arrivals s) =
              Inl (if \<not> link_up s then IOError
                   else if EndOfStream \<in> set arrivals then ConnectionClosed else TimedOut))"
    using get_value_outcome [OF w, of GET_MOTOR_NORMAL arrivals]
    by (simp add: getter_results sub_of_def)
  have p5: "(link_up s \<and>
      fst (get_value (motors_sub s) arrivals (snd (send_data GET_MOTOR_NORMAL_Request s))) = Inl e \<longrightarrow>
            fst (get_motors arrivals s) = Inl e)"
    by (simp add: getter_results snd_send_data get_value_ignores_log)
  have t6: "(GET_PID_CONSTANTS \<notin> frame_types arrivals \<longrightarrow>
            fst (get_PID arrivals s) =
              Inl (if \<not> link_up s then IOError
                   else if EndOfStream \<in> set arrivals then ConnectionClosed else TimedOut))"
    using get_value_outcome [OF w, of GET_PID_CONSTANTS arrivals]
    by (simp add: getter_results sub_of_def)
  have p6: "(link_up s \<and>
      fst (get_value (PID_sub s) arrivals (snd (send_data GET_PID_CONSTANTS_Request s))) = Inl e \<longrightarrow>
            fst (get_PID arrivals s) = Inl e)"
    by (simp add: getter_results snd_send_data get_value_ignores_log)
  have t7: "(GET_MOTOR_NORMAL \<notin> frame_types arrivals \<longrightarrow>
            fst (get_motor motor arrivals s) =
              Inl (if \<not> link_up s then IOError
                   else if EndOfStream \<in> set arrivals then ConnectionClosed else TimedOut))"
    using t5 by (simp add: get_motor_result)
  have p7: "(fst (get_motors arrivals s) = Inl e \<longrightarrow> fst (get_motor motor arrivals s) = Inl e)"
    by (simp add: get_motor_result)
  show ?thesis
    by (intro conjI) (rule t0 p0 t1 p1 t2 p2 t3 p3 t4 p4 t5 p5 t6 p6 t7 p7)+
qed

text \<open>
  On the fresh facade \<^verbatim>\<open>get_voltage\<close> ends with \<open>TimedOut\<close> when only an attitude
  frame arrives, and with \<open>ConnectionClosed\<close> when the stream ends after it; with the
  link down it ends with \<open>IOError\<close>.
\<close>

theorem getter_passes_failure_on_witness:
  "reachable Mosquito_init \<and> reachable (Mosquito_init\<lparr>link_up := False\<rparr>) \<and>
   link_up Mosquito_init \<and> \<not> link_up (Mosquito_init\<lparr>link_up := False\<rparr>) \<and>
   GET_BATTERY_VOLTAGE \<notin> frame_types [Frame ATTITUDE_RADIANS [1, 2, 3]] \<and>
   GET_BATTERY_VOLTAGE \<notin> frame_types [Frame ATTITUDE_RADIANS [1, 2, 3], EndOfStream] \<and>
   fst (get_voltage [Frame ATTITUDE_RADIANS [1, 2, 3]] Mosquito_init) = Inl TimedOut \<and>
   fst (get_voltage [Frame ATTITUDE_RADIANS [1, 2, 3], EndOfStream] Mosquito_init)
     = Inl ConnectionClosed \<and>
   fst (get_voltage [Frame ATTITUDE_RADIANS [1, 2, 3]] (Mosquito_init\<lparr>link_up := False\<rparr>))
     = Inl IOError \<and>
   fst (get_value (voltage_sub Mosquito_init) []
          (snd (send_data GET_BATTERY_VOLTAGE_Request Mosquito_init))) = Inl TimedOut \<and>
   fst (get_voltage [] Mosquito_init) = Inl TimedOut"
proof -
  have r: "reachable Mosquito_init" by (rule reachable.init)
  have r': "reachable (Mosquito_init\<lparr>link_up := False\<rparr>)"
    using r by (rule reachable.link_change)
  have g: "fst (get_value (voltage_sub Mosquito_init) []
          (snd (send_data GET_BATTERY_VOLTAGE_Request Mosquito_init))) = Inl TimedOut"
    by (simp add: get_value_def)
  show ?thesis
    using r r' g
      getter_passes_failure_on [OF r, of "[Frame ATTITUDE_RADIANS [1, 2, 3]]"]
      getter_passes_failure_on [OF r, of "[Frame ATTITUDE_RADIANS [1, 2, 3], EndOfStream]"]
      getter_passes_failure_on [OF r', of "[Frame ATTITUDE_RADIANS [1, 2, 3]]"]
      getter_passes_failure_on [OF r, where arrivals = "[]" and e = TimedOut]
    by (simp add: init_fields)
qed

text \<open>
  Against claim C2 as stated (the getter fails with \<open>RequestTimeout\<close>): on the fresh
  facade, with nothing arriving, \<^verbatim>\<open>get_voltage\<close> ends with the wait's \<open>TimedOut\<close>,
  which is another failure than \<open>RequestTimeout\<close>; the getter of the spec, in the same
  situation, ends with \<open>RequestTimeout\<close>.
\<close>

theorem getter_timeout_counterexample:
  "fst (get_voltage [] Mosquito_init) = Inl TimedOut \<and>
   fst (get_voltage [] Mosquito_init) \<noteq> Inl RequestTimeout \<and>
   fst (spec_getter (voltage_sub Mosquito_init) GET_BATTERY_VOLTAGE_Request [] Mosquito_init)
     = Inl RequestTimeout"
proof -
  have a: "fst (get_voltage [] Mosquito_init) = Inl TimedOut"
    by (simp add: getter_results get_value_def init_fields)
  have b: "fst (spec_getter (sub_of Mosquito_init GET_BATTERY_VOLTAGE) GET_BATTERY_VOLTAGE_Request
                  [] Mosquito_init) = Inl RequestTimeout"
    by (rule spec_getter_timeout) (simp_all add: wired_init init_fields)
  show ?thesis using a b by (simp add: sub_of_def)
qed

section \<open>Stateful setters: payload and cache\<close>

text \<open>
  Claim C3, as the code has it. Whenever the cache holds four motor values and \<open>motor\<close>
  is between 1 and 4, \<^verbatim>\<open>set_motor(motor, val)\<close> sends one motor frame with four slots,
  in which slot \<open>motor - 1\<close> is \<open>val\<close> and every other slot is the cached value of that
  motor; the payload is the new content of the cache, so the cache holds four values
  again. The cache holds four values after construction and after any
  \<^verbatim>\<open>set_motors\<close> call with four values. In every state the facade can reach,
  \<^verbatim>\<open>set_leds\<close> sends one LED frame with three slots, in which an argument left as
  \<open>None\<close> keeps the cached status of its LED. In both cases the frame is the one call
  made and it reaches the outbox when the link is up.
\<close>

theorem setter_sends_full_payload:
  "(length (motor_values s) = 4 \<and> 1 \<le> motor \<and> motor \<le> 4 \<longrightarrow>
      (\<exists>payload.
         length payload = 4 \<and>
         payload ! nat (motor - 1) = val \<and>
         (\<forall>i < 4. i \<noteq> nat (motor - 1) \<longrightarrow> payload ! i = motor_values s ! i) \<and>
         calls (snd (set_motor motor val s)) = calls s @ [SendData (SET_MOTOR_NORMAL payload)] \<and>
         outbox (snd (set_motor motor val s)) =
           (if link_up s then outbox s @ [SET_MOTOR_NORMAL payload] else outbox s) \<and>
         motor_values (snd (set_motor motor val s)) = payload)) \<and>
   length (motor_values Mosquito_init) = 4 \<and>
   (length values = 4 \<longrightarrow> length (motor_values (snd (set_motors values s))) = 4) \<and>
   (reachable s \<longrightarrow>
      (\<exists>payload.
         payload = [case red of None \<Rightarrow> led_status s ! 0 | Some x \<Rightarrow> x,
                    case green of None \<Rightarrow> led_status s ! 1 | Some x \<Rightarrow> x,
                    case blue of None \<Rightarrow> led_status s ! 2 | Some x \<Rightarrow> x] \<and>
         calls (snd (set_leds red green blue s)) = calls s @ [SendData (SET_LEDS payload)] \<and>
         outbox (snd (set_leds red green blue s)) =
           (if link_up s then outbox s @ [SET_LEDS payload] else outbox s) \<and>
         led_status (snd (set_leds red green blue s)) = payload))"
proof (intro conjI impI)
  assume a: "length (motor_values s) = 4 \<and> 1 \<le> motor \<and> motor \<le> 4"
  let ?p = "(motor_values s)[nat (motor - 1) := val]"
  have len: "length ?p = 4" using a by simp
  have sent: "set_motor motor val s =
      send_data (SET_MOTOR_NORMAL ?p) (s\<lparr>motor_values := ?p\<rparr>)"
    using a by (simp add: set_motor_sends)
  have c: "calls (snd (set_motor motor val s)) = calls s @ [SendData (SET_MOTOR_NORMAL ?p)]"
    by (simp add: sent snd_send_data)
  have ob: "outbox (snd (set_motor motor val s)) =
      (if link_up s then outbox s @ [SET_MOTOR_NORMAL ?p] else outbox s)"
    by (simp add: sent snd_send_data)
  have mv: "motor_values (snd (set_motor motor val s)) = ?p"
    by (simp add: sent snd_send_data)
  have "nat (motor - 1) < length (motor_values s)" using a by arith
  then have slot: "?p ! nat (motor - 1) = val" by simp
  have rest: "\<forall>i < 4. i \<noteq> nat (motor - 1) \<longrightarrow> ?p ! i = motor_values s ! i" by simp
  from len slot rest c ob mv
  show "\<exists>payload.
         length payload = 4 \<and>
         payload ! nat (motor - 1) = val \<and>
         (\<forall>i < 4. i \<noteq> nat (motor - 1) \<longrightarrow> payload ! i = motor_values s ! i) \<and>
         calls (snd (set_motor motor val s)) = calls s @ [SendData (SET_MOTOR_NORMAL payload)] \<and>
         outbox (snd (set_motor motor val s)) =
           (if link_up s then outbox s @ [SET_MOTOR_NORMAL payload] else outbox s) \<and>
         motor_values (snd (set_motor motor val s)) = payload"
    by blast
next
  show "length (motor_values Mosquito_init) = 4" by (simp add: init_fields)
next
  assume "length values = 4"
  then show "length (motor_values (snd (set_motors values s))) = 4"
    by (simp add: set_motors_sends snd_send_data)
next
  assume "reachable s"
  then have a: "length (led_status s) = 3" by (rule reachable_led_status)
  show "\<exists>payload.
         payload = [case red of None \<Rightarrow> led_status s ! 0 | Some x \<Rightarrow> x,
                    case green of None \<Rightarrow> led_status s ! 1 | Some x \<Rightarrow> x,
                    case blue of None \<Rightarrow> led_status s ! 2 | Some x \<Rightarrow> x] \<and>
         calls (snd (set_leds red green blue s)) = calls s @ [SendData (SET_LEDS payload)] \<and>
         outbox (snd (set_leds red green blue s)) =
           (if link_up s then outbox s @ [SET_LEDS payload] else outbox s) \<and>
         led_status (snd (set_leds red green blue s)) = payload"
    by (simp add: set_leds_sends [OF a] snd_send_data)
qed

text \<open>
  With four different values in the cache, \<open>(1/10, 3/10, 7/10, 9/10)\<close>, setting motor 3
  to \<open>1/2\<close> sends \<open>(1/10, 3/10, 1/2, 9/10)\<close>. With all three LEDs on, switching off
  the green one alone sends \<open>(1, 0, 1)\<close>.
\<close>

theorem setter_sends_full_payload_witness:
  "length (motor_values (snd (set_motors [1 / 10, 3 / 10, 7 / 10, 9 / 10] Mosquito_init))) = 4 \<and>
   (1::int) \<le> 3 \<and> (3::int) \<le> 4 \<and>
   (\<exists>payload.
      calls (snd (set_motor 3 (1 / 2)
                   (snd (set_motors [1 / 10, 3 / 10, 7 / 10, 9 / 10] Mosquito_init)))) =
        [SendData (SET_MOTOR_NORMAL [1 / 10, 3 / 10, 7 / 10, 9 / 10]),
         SendData (SET_MOTOR_NORMAL payload)] \<and>
      length payload = 4 \<and>
      payload ! 0 = 1 / 10 \<and> payload ! 1 = 3 / 10 \<and> payload ! 2 = 1 / 2 \<and>
      payload ! 3 = 9 / 10) \<and>
   reachable (snd (set_leds (Some 1) (Some 1) (Some 1) Mosquito_init)) \<and>
   calls (snd (set_leds None (Some 0) None
                (snd (set_leds (Some 1) (Some 1) (Some 1) Mosquito_init)))) =
     [SendData (SET_LEDS [1, 1, 1]), SendData (SET_LEDS [1, 0, 1])]"
proof -
  let ?s = "snd (set_motors [1 / 10, 3 / 10, 7 / 10, 9 / 10] Mosquito_init)"
  let ?l = "snd (set_leds (Some 1) (Some 1) (Some 1) Mosquito_init)"
  have s: "motor_values ?s = [1 / 10, 3 / 10, 7 / 10, 9 / 10]"
    "calls ?s = [SendData (SET_MOTOR_NORMAL [1 / 10, 3 / 10, 7 / 10, 9 / 10])]"
    by (simp_all add: set_motors_sends snd_send_data init_fields)
  have r: "reachable ?l"
    by (rule reachable.call_set_leds) (rule reachable.init)
  have l: "led_status ?l = [1, 1, 1]" "calls ?l = [SendData (SET_LEDS [1, 1, 1])]"
    by (simp_all add: set_leds_sends snd_send_data init_fields)
  show ?thesis
    using r
      setter_sends_full_payload [where s = ?s and motor = 3 and val = "1 / 2"]
      setter_sends_full_payload
        [where s = ?l and red = None and green = "Some 0" and blue = None]
    by (auto simp: s l)
qed

text \<open>
  Against claim C3 as stated (for every motor index between 1 and 4, \<^verbatim>\<open>set_motor\<close>
  sends the four slots): \<^verbatim>\<open>set_motors([1, 2])\<close> on the fresh facade fails, but has
  stored its argument in the cache first; in the state it leaves, \<^verbatim>\<open>set_motor(1, 5)\<close>
  finds no cached value for the third motor, fails with \<open>IndexError\<close> and sends nothing.
\<close>

theorem set_motor_counterexample:
  "reachable (snd (set_motors [1, 2] Mosquito_init)) \<and>
   motor_values (snd (set_motors [1, 2] Mosquito_init)) = [1, 2] \<and>
   calls (snd (set_motors [1, 2] Mosquito_init)) = [] \<and>
   fst (set_motor 1 5 (snd (set_motors [1, 2] Mosquito_init))) = Inl IndexError \<and>
   calls (snd (set_motor 1 5 (snd (set_motors [1, 2] Mosquito_init)))) = []"
proof -
  have r: "reachable (snd (set_motors [1, 2] Mosquito_init))"
    by (rule reachable.call_set_motors) (rule reachable.init)
  have s: "snd (set_motors [1, 2] Mosquito_init) = Mosquito_init\<lparr>motor_values := [1, 2]\<rparr>"
    by (simp add: set_motors_def Let_def and_then_return_value serialize_SET_MOTOR_NORMAL_def)
  show ?thesis
    using r
    by (simp add: s set_motor_def Let_def and_then_return_value py_index_def init_fields)
qed

text \<open>
  Claim C4, as the code has it. Each of \<^verbatim>\<open>set_motors\<close>, \<^verbatim>\<open>set_voltage\<close> and
  \<^verbatim>\<open>set_leds\<close> writes the new value into the cache before it hands the frame to the
  transport: after the call the cache holds the new value whether or not the write
  succeeded, and with the link down the call fails with \<open>IOError\<close> while the cache has
  changed all the same.
\<close>

theorem cache_written_before_send:
  "motor_values (snd (set_motors values s)) = values \<and>
   voltage (snd (set_voltage v s)) = v \<and>
   (length (led_status s) = 3 \<longrightarrow>
      led_status (snd (set_leds red green blue s)) =
        [case red of None \<Rightarrow> led_status s ! 0 | Some x \<Rightarrow> x,
         case green of None \<Rightarrow> led_status s ! 1 | Some x \<Rightarrow> x,
         case blue of None \<Rightarrow> led_status s ! 2 | Some x \<Rightarrow> x]) \<and>
   (\<not> link_up s \<and> length values = 4 \<longrightarrow> fst (set_motors values s) = Inl IOError) \<and>
   (\<not> link_up s \<longrightarrow> fst (set_voltage v s) = Inl IOError) \<and>
   (\<not> link_up s \<and> length (led_status s) = 3 \<longrightarrow> fst (set_leds red green blue s) = Inl IOError)"
proof (intro conjI impI)
  show "motor_values (snd (set_motors values s)) = values"
    by (simp add: set_motors_def Let_def and_then_return_value serialize_SET_MOTOR_NORMAL_def
        snd_send_data)
  show "voltage (snd (set_voltage v s)) = v"
    by (simp add: set_voltage_def Let_def snd_send_data)
  show "led_status (snd (set_leds red green blue s)) =
        [case red of None \<Rightarrow> led_status s ! 0 | Some x \<Rightarrow> x,
         case green of None \<Rightarrow> led_status s ! 1 | Some x \<Rightarrow> x,
         case blue of None \<Rightarrow> led_status s ! 2 | Some x \<Rightarrow> x]"
    if "length (led_status s) = 3"
    by (simp add: set_leds_sends [OF that] snd_send_data)
  show "fst (set_motors values s) = Inl IOError" if "\<not> link_up s \<and> length values = 4"
    using that by (simp add: set_motors_sends fst_send_data)
  show "fst (set_voltage v s) = Inl IOError" if "\<not> link_up s"
    using that by (simp add: set_voltage_def Let_def fst_send_data)
  show "fst (set_leds red green blue s) = Inl IOError"
    if "\<not> link_up s \<and> length (led_status s) = 3"
    using that by (simp add: set_leds_sends fst_send_data)
qed

text \<open>With the link down, the three setters fail and the three caches change.\<close>

theorem cache_written_before_send_witness:
  "\<not> link_up (Mosquito_init\<lparr>link_up := False\<rparr>) \<and>
   length [1 / 2, 1 / 2, 1 / 2, 1 / 2 :: real] = 4 \<and>
   length (led_status (Mosquito_init\<lparr>link_up := False\<rparr>)) = 3 \<and>
   fst (set_motors [1 / 2, 1 / 2, 1 / 2, 1 / 2] (Mosquito_init\<lparr>link_up := False\<rparr>)) = Inl IOError \<and>
   motor_values (snd (set_motors [1 / 2, 1 / 2, 1 / 2, 1 / 2] (Mosquito_init\<lparr>link_up := False\<rparr>)))
     = [1 / 2, 1 / 2, 1 / 2, 1 / 2] \<and>
   fst (set_voltage 7 (Mosquito_init\<lparr>link_up := False\<rparr>)) = Inl IOError \<and>
   voltage (snd (set_voltage 7 (Mosquito_init\<lparr>link_up := False\<rparr>))) = 7 \<and>
   fst (set_leds (Some 1) None None (Mosquito_init\<lparr>link_up := False\<rparr>)) = Inl IOError \<and>
   led_status (snd (set_leds (Some 1) None None (Mosquito_init\<lparr>link_up := False\<rparr>))) = [1, 0, 0]"
  using cache_written_before_send
    [of "[1 / 2, 1 / 2, 1 / 2, 1 / 2]" "Mosquito_init\<lparr>link_up := False\<rparr>" 7 "Some 1" None None]
  by (simp add: init_fields)

text \<open>
  Against claim C4 as stated (the cache is left unchanged when the write fails): the
  fresh facade caches four zeros; with the link down \<^verbatim>\<open>set_motors([1, 1, 1, 1])\<close> fails
  with \<open>IOError\<close>, and the cache holds four ones afterwards.
\<close>

theorem cache_update_counterexample:
  "motor_values (Mosquito_init\<lparr>link_up := False\<rparr>) = [0, 0, 0, 0] \<and>
   fst (set_motors [1, 1, 1, 1] (Mosquito_init\<lparr>link_up := False\<rparr>)) = Inl IOError \<and>
   motor_values (snd (set_motors [1, 1, 1, 1] (Mosquito_init\<lparr>link_up := False\<rparr>))) = [1, 1, 1, 1]"
  by (simp add: set_motors_def Let_def and_then_return_value serialize_SET_MOTOR_NORMAL_def
      send_data_def init_fields)

section \<open>Units of the attitude\<close>

text \<open>
  Claim C5. \<^verbatim>\<open>get_attitude(degrees=True)\<close> returns what \<^verbatim>\<open>get_attitude()\<close> returns
  with every angle multiplied by \<open>180 / pi\<close>, and fails where it fails. In a reachable
  state with the link up, the first attitude tuple received during the wait (before the
  stream ends, if it does) is returned as it is with \<open>degrees = False\<close> and converted with \<open>degrees = True\<close>: the conversion is
  applied by the getter to the value that \<^verbatim>\<open>get_value\<close> has returned.
\<close>

theorem get_attitude_units:
  "get_attitude True arrivals s =
     (map_sum id (map (\<lambda>angle. angle * (180 / pi))) (fst (get_attitude False arrivals s)),
      snd (get_attitude False arrivals s)) \<and>
   (reachable s \<and> link_up s \<and>
    ATTITUDE_RADIANS \<notin> frame_types pre \<and> EndOfStream \<notin> set pre \<longrightarrow>
      fst (get_attitude False (pre @ Frame ATTITUDE_RADIANS received # post) s) = Inr received \<and>
      fst (get_attitude True (pre @ Frame ATTITUDE_RADIANS received # post) s) =
        Inr (map (\<lambda>angle. angle * (180 / pi)) received))"
proof (intro conjI impI)
  show rel: "get_attitude True arrivals s =
     (map_sum id (map (\<lambda>angle. angle * (180 / pi))) (fst (get_attitude False arrivals s)),
      snd (get_attitude False arrivals s))" for arrivals
  proof (cases "link_up s")
    case False
    then show ?thesis by (simp add: get_attitude_def and_then_send_data)
  next
    case True
    let ?s = "s\<lparr>calls := calls s @ [SendData ATTITUDE_RADIANS_Request],
                  outbox := outbox s @ [ATTITUDE_RADIANS_Request]\<rparr>"
    have g: "get_attitude degrees arrivals s =
        and_then (get_value (attitude_sub s) arrivals)
          (\<lambda>attitude. if \<not> degrees then return_value (Inr attitude)
             else return_value (Inr (map (\<lambda>angle. angle * 180 / pi) attitude))) ?s" for degrees
      using True by (simp add: get_attitude_def and_then_send_data)
    show ?thesis
      by (cases "get_value (attitude_sub s) arrivals ?s")
        (auto simp: g and_then_def return_value_def split: sum.splits)
  qed
  assume a: "reachable s \<and> link_up s \<and>
    ATTITUDE_RADIANS \<notin> frame_types pre \<and> EndOfStream \<notin> set pre"
  let ?arr = "pre @ Frame ATTITUDE_RADIANS received # post"
  have w: "wired s" using a by (simp add: reachable_wired)
  have "fst (get_value (sub_of s ATTITUDE_RADIANS) ?arr s) = Inr received"
    using a w by (simp add: get_value_received)
  then show f: "fst (get_attitude False ?arr s) = Inr received"
    using a by (simp add: getter_results sub_of_def)
  show "fst (get_attitude True ?arr s) = Inr (map (\<lambda>angle. angle * (180 / pi)) received)"
    by (simp add: rel [of ?arr] f)
qed

text \<open>
  On the fresh facade, a voltage frame and then the attitude \<open>(0, pi, pi / 2)\<close> arrive:
  the getter returns these radians, or \<open>(0, 180, 90)\<close> in degrees.
\<close>

theorem get_attitude_units_witness:
  "reachable Mosquito_init \<and> link_up Mosquito_init \<and>
   ATTITUDE_RADIANS \<notin> frame_types [Frame GET_BATTERY_VOLTAGE [74 / 10]] \<and>
   EndOfStream \<notin> set [Frame GET_BATTERY_VOLTAGE [74 / 10]] \<and>
   fst (get_attitude False
         [Frame GET_BATTERY_VOLTAGE [74 / 10], Frame ATTITUDE_RADIANS [0, pi, pi / 2]]
         Mosquito_init) = Inr [0, pi, pi / 2] \<and>
   fst (get_attitude True
         [Frame GET_BATTERY_VOLTAGE [74 / 10], Frame ATTITUDE_RADIANS [0, pi, pi / 2]]
         Mosquito_init) = Inr [0, 180, 90]"
proof -
  have r: "reachable Mosquito_init" by (rule reachable.init)
  have l: "link_up Mosquito_init" by (simp add: init_fields)
  show ?thesis
    using r l
      get_attitude_units [of "[]" Mosquito_init "[Frame GET_BATTERY_VOLTAGE [74 / 10]]"
        "[0, pi, pi / 2]" "[]"]
    by simp
qed

section \<open>Commands\<close>

text \<open>
  Claim C6. Each command hands exactly one frame to the transport and does nothing else:
  the frame is the only new entry of the call log, so there is no wait and no call on a
  subscriber, and the store of subscribers, like every other field but the log and the
  outbox, is as it was.
\<close>

theorem command_sends_one_frame:
  "sends_only arm WP_ARM_Request s \<and>
   sends_only disarm WP_DISARM_Request s \<and>
   sends_only (set_position_board has_position_board) (SET_POSITIONING_BOARD has_position_board) s \<and>
   sends_only (set_mosquito_version is_mosquito_90) (SET_MOSQUITO_VERSION is_mosquito_90) s \<and>
   sends_only calibrate_ESCs (ESC_CALIBRATION 0) s \<and>
   sends_only (calibrate_transmitter stage) (RC_CALIBRATION stage) s \<and>
   sends_only stop (SET_EMERGENCY_STOP 0) s \<and>
   sends_only execute_mission (WP_MISSION_BEGIN 1) s \<and>
   sends_only (take_off height) (WP_TAKE_OFF height 0) s \<and>
   sends_only land (WP_LAND 0) s \<and>
   sends_only (hover time) (WP_HOVER time 0) s \<and>
   sends_only (change_height height) (WP_CHANGE_ALTITUDE height 0) s \<and>
   sends_only (move_forward time) (WP_GO_FORWARD time 0) s \<and>
   sends_only (move_backwards time) (WP_GO_BACKWARD time 0) s \<and>
   sends_only (move_left time) (WP_GO_LEFT time 0) s \<and>
   sends_only (move_right time) (WP_GO_RIGHT time 0) s \<and>
   sends_only (turn angle) (if angle > 0 then WP_TURN_CCW angle 0 else WP_TURN_CW angle 0) s \<and>
   sends_only (clear_EEPROM section_no) (CLEAR_EEPROM section_no) s"
  by (simp add: arm_def disarm_def set_position_board_def set_mosquito_version_def
      calibrate_ESCs_def calibrate_transmitter_def stop_def execute_mission_def take_off_def
      land_def hover_def change_height_def move_forward_def move_backwards_def move_left_def
      move_right_def turn_def clear_EEPROM_def sends_only_send_data)

section \<open>Isolation of the subscribers\<close>

text \<open>
  Claim C7. In every reachable state the seven subscribers are seven different objects
  and the handler of each message type is the publisher of that type's subscriber
  (\<open>wired\<close>). A dispatched frame of type \<open>A\<close> publishes into the subscriber of \<open>A\<close> and
  leaves every other cell of the store, so the latest value and the version of the
  subscriber of any other type \<open>B\<close>, as they were. Each getter reads its own subscriber
  only: changing any other cell of the store does not change what it returns.
\<close>

theorem dispatch_isolation:
  assumes "reachable s"
  shows
    "wired s \<and>
     cells (heap (dispatch (A, v) s)) (sub_of s A) = publish v (cells (heap s) (sub_of s A)) \<and>
     (\<forall>r. r \<noteq> sub_of s A \<longrightarrow> cells (heap (dispatch (A, v) s)) r = cells (heap s) r) \<and>
     (B \<noteq> A \<longrightarrow>
        sub_of s B \<noteq> sub_of s A \<and>
        latest_value (cells (heap (dispatch (A, v) s)) (sub_of s B)) =
          latest_value (cells (heap s) (sub_of s B)) \<and>
        version (cells (heap (dispatch (A, v) s)) (sub_of s B)) =
          version (cells (heap s) (sub_of s B))) \<and>
     (r \<noteq> position_board_connected_sub s \<longrightarrow>
        fst (position_board_connected arrivals
               (s\<lparr>heap := (heap s)\<lparr>cells := (cells (heap s))(r := c)\<rparr>\<rparr>)) =
        fst (position_board_connected arrivals s)) \<and>
     (r \<noteq> firmware_version_sub s \<longrightarrow>
        fst (get_firmware_version arrivals
               (s\<lparr>heap := (heap s)\<lparr>cells := (cells (heap s))(r := c)\<rparr>\<rparr>)) =
        fst (get_firmware_version arrivals s)) \<and>
     (r \<noteq> attitude_sub s \<longrightarrow>
        fst (get_attitude degrees arrivals
               (s\<lparr>heap := (heap s)\<lparr>cells := (cells (heap s))(r := c)\<rparr>\<rparr>)) =
        fst (get_attitude degrees arrivals s)) \<and>
     (r \<noteq> velocities_sub s \<longrightarrow>
        fst (get_velocities arrivals
               (s\<lparr>heap := (heap s)\<lparr>cells := (cells (heap s))(r := c)\<rparr>\<rparr>)) =
        fst (get_velocities arrivals s)) \<and>
     (r \<noteq> voltage_sub s \<longrightarrow>
        fst (get_voltage arrivals
               (s\<lparr>heap := (heap s)\<lparr>cells := (cells (heap s))(r := c)\<rparr>\<rparr>)) =
        fst (get_voltage arrivals s)) \<and>
     (r \<noteq> motors_sub s \<longrightarrow>
        fst (get_motors arrivals
               (s\<lparr>heap := (heap s)\<lparr>cells := (cells (heap s))(r := c)\<rparr>\<rparr>)) =
        fst (get_motors arrivals s)) \<and>
     (r \<noteq> PID_sub s \<longrightarrow>
        fst (get_PID arrivals
               (s\<lparr>heap := (heap s)\<lparr>cells := (cells (heap s))(r := c)\<rparr>\<rparr>)) =
        fst (get_PID arrivals s))"
proof -
  have w: "wired s" using assms by (rule reachable_wired)
  have d: "cells (heap (dispatch (A, v) s)) =
             (cells (heap s))(sub_of s A := publish v (cells (heap s) (sub_of s A)))"
    using w by (rule wired_dispatch_cells)
  have own: "cells (heap (dispatch (A, v) s)) (sub_of s A) = publish v (cells (heap s) (sub_of s A))"
    by (simp add: d)
  have others: "\<forall>r. r \<noteq> sub_of s A \<longrightarrow> cells (heap (dispatch (A, v) s)) r = cells (heap s) r"
    by (simp add: d)
  have iso: "sub_of s B \<noteq> sub_of s A \<and>
        latest_value (cells (heap (dispatch (A, v) s)) (sub_of s B)) =
          latest_value (cells (heap s) (sub_of s B)) \<and>
        version (cells (heap (dispatch (A, v) s)) (sub_of s B)) =
          version (cells (heap s) (sub_of s B))" if "B \<noteq> A"
    using wired_sub_of_inj [OF w that] by (simp add: d)
  have g: "fst (get_value (sub_of s T) arrivals
                 (s\<lparr>heap := (heap s)\<lparr>cells := (cells (heap s))(r := c)\<rparr>\<rparr>)) =
           fst (get_value (sub_of s T) arrivals s)" if "r \<noteq> sub_of s T" for T
    using w that by (rule get_value_own_cell)
  have pbc: "fst (position_board_connected arrivals
               (s\<lparr>heap := (heap s)\<lparr>cells := (cells (heap s))(r := c)\<rparr>\<rparr>)) =
        fst (position_board_connected arrivals s)" if "r \<noteq> position_board_connected_sub s"
    using g [of POSITION_BOARD_CONNECTED] that by (simp add: getter_results sub_of_def)
  have fw: "fst (get_firmware_version arrivals
               (s\<lparr>heap := (heap s)\<lparr>cells := (cells (heap s))(r := c)\<rparr>\<rparr>)) =
        fst (get_firmware_version arrivals s)" if "r \<noteq> firmware_version_sub s"
    using g [of FIRMWARE_VERSION] that by (simp add: getter_results sub_of_def)
  have att: "fst (get_attitude degrees arrivals
               (s\<lparr>heap := (heap s)\<lparr>cells := (cells (heap s))(r := c)\<rparr>\<rparr>)) =
        fst (get_attitude degrees arrivals s)" if "r \<noteq> attitude_sub s"
    using g [of ATTITUDE_RADIANS] that by (simp add: getter_results sub_of_def)
  have vel: "fst (get_velocities arrivals
               (s\<lparr>heap := (heap s)\<lparr>cells := (cells (heap s))(r := c)\<rparr>\<rparr>)) =
        fst (get_velocities arrivals s)" if "r \<noteq> velocities_sub s"
    using g [of GET_VELOCITIES] that by (simp add: getter_results sub_of_def)
  have vol: "fst (get_voltage arrivals
               (s\<lparr>heap := (heap s)\<lparr>cells := (cells (heap s))(r := c)\<rparr>\<rparr>)) =
        fst (get_voltage arrivals s)" if "r \<noteq> voltage_sub s"
    using g [of GET_BATTERY_VOLTAGE] that by (simp add: getter_results sub_of_def)
  have mot: "fst (get_motors arrivals
               (s\<lparr>heap := (heap s)\<lparr>cells := (cells (heap s))(r := c)\<rparr>\<rparr>)) =
        fst (get_motors arrivals s)" if "r \<noteq> motors_sub s"
    using g [of GET_MOTOR_NORMAL] that by (simp add: getter_results sub_of_def)
  have pid: "fst (get_PID arrivals
               (s\<lparr>heap := (heap s)\<lparr>cells := (cells (heap s))(r := c)\<rparr>\<rparr>)) =
        fst (get_PID arrivals s)" if "r \<noteq> PID_sub s"
    using g [of GET_PID_CONSTANTS] that by (simp add: getter_results sub_of_def)
  from w own others iso pbc fw att vel vol mot pid show ?thesis by blast
qed

text \<open>
  On the fresh facade: an attitude frame leaves the voltage subscriber as it was, and
  overwriting the cell of the first subscriber does not change what \<^verbatim>\<open>get_voltage\<close>
  returns when a voltage frame arrives.
\<close>

theorem dispatch_isolation_witness:
  "reachable Mosquito_init \<and> wired Mosquito_init \<and>
   GET_BATTERY_VOLTAGE \<noteq> ATTITUDE_RADIANS \<and>
   sub_of Mosquito_init GET_BATTERY_VOLTAGE \<noteq> sub_of Mosquito_init ATTITUDE_RADIANS \<and>
   cells (heap (dispatch (ATTITUDE_RADIANS, [1, 2, 3]) Mosquito_init))
     (sub_of Mosquito_init GET_BATTERY_VOLTAGE) =
   cells (heap Mosquito_init) (sub_of Mosquito_init GET_BATTERY_VOLTAGE) \<and>
   (0::nat) \<noteq> voltage_sub Mosquito_init \<and>
   fst (get_voltage [Frame GET_BATTERY_VOLTAGE [74 / 10]]
          (Mosquito_init\<lparr>heap := (heap Mosquito_init)\<lparr>cells :=
             (cells (heap Mosquito_init))(0 := \<lparr>latest_value = Some [1], version = 7\<rparr>)\<rparr>\<rparr>)) =
   fst (get_voltage [Frame GET_BATTERY_VOLTAGE [74 / 10]] Mosquito_init)"
proof -
  have r: "reachable Mosquito_init" by (rule reachable.init)
  have v: "voltage_sub Mosquito_init = 5" by (simp add: init_fields)
  show ?thesis
    using r v
      dispatch_isolation [OF r, of ATTITUDE_RADIANS "[1, 2, 3]" GET_BATTERY_VOLTAGE 0
        "[Frame GET_BATTERY_VOLTAGE [74 / 10]]" "\<lparr>latest_value = Some [1], version = 7\<rparr>"]
    by simp
qed

section \<open>Turning\<close>

text \<open>
  Claim C8. \<^verbatim>\<open>turn(angle)\<close> sends the counter-clockwise frame with that angle when
  the angle is greater than 0 and the clockwise frame with that angle otherwise; for the
  angle 0 it is the clockwise frame. It sends nothing else.
\<close>

theorem turn_direction:
  "(angle > 0 \<longrightarrow> sends_only (turn angle) (WP_TURN_CCW angle 0) s) \<and>
   (\<not> angle > 0 \<longrightarrow> sends_only (turn angle) (WP_TURN_CW angle 0) s) \<and>
   sends_only (turn 0) (WP_TURN_CW 0 0) s"
  by (simp add: turn_def sends_only_send_data)

text \<open>A quarter turn to the left and one to the right, on the fresh facade.\<close>

theorem turn_direction_witness:
  "(90::int) > 0 \<and> sends_only (turn 90) (WP_TURN_CCW 90 0) Mosquito_init \<and>
   \<not> (-90::int) > 0 \<and> sends_only (turn (-90)) (WP_TURN_CW (-90) 0) Mosquito_init"
  using turn_direction [of 90 Mosquito_init] turn_direction [of "-90" Mosquito_init]
  by simp

section \<open>The cached voltage\<close>

text \<open>
  Claim C9. \<^verbatim>\<open>set_voltage(v)\<close> writes the cached field \<open>voltage\<close> and sends the
  set-voltage frame, and nothing else. No getter reads that field: what any getter returns
  is the same whatever the field holds, and so what \<^verbatim>\<open>get_voltage\<close> returns after
  \<^verbatim>\<open>set_voltage\<close> is what it would have returned without it.
\<close>

theorem set_voltage_not_read:
  "snd (set_voltage v s) =
     s\<lparr>voltage := v,
       calls := calls s @ [SendData (SET_BATTERY_VOLTAGE v)],
       outbox := (if link_up s then outbox s @ [SET_BATTERY_VOLTAGE v] else outbox s)\<rparr> \<and>
   fst (get_voltage arrivals (snd (set_voltage v s))) = fst (get_voltage arrivals s) \<and>
   fst (get_voltage arrivals (s\<lparr>voltage := x\<rparr>)) = fst (get_voltage arrivals s) \<and>
   fst (position_board_connected arrivals (s\<lparr>voltage := x\<rparr>)) =
     fst (position_board_connected arrivals s) \<and>
   fst (get_firmware_version arrivals (s\<lparr>voltage := x\<rparr>)) =
     fst (get_firmware_version arrivals s) \<and>
   fst (get_attitude degrees arrivals (s\<lparr>voltage := x\<rparr>)) =
     fst (get_attitude degrees arrivals s) \<and>
   fst (get_velocities arrivals (s\<lparr>voltage := x\<rparr>)) = fst (get_velocities arrivals s) \<and>
   fst (get_motors arrivals (s\<lparr>voltage := x\<rparr>)) = fst (get_motors arrivals s) \<and>
   fst (get_motor motor arrivals (s\<lparr>voltage := x\<rparr>)) = fst (get_motor motor arrivals s) \<and>
   fst (get_PID arrivals (s\<lparr>voltage := x\<rparr>)) = fst (get_PID arrivals s)"
proof -
  have sv: "snd (set_voltage v s) =
     s\<lparr>voltage := v,
       calls := calls s @ [SendData (SET_BATTERY_VOLTAGE v)],
       outbox := (if link_up s then outbox s @ [SET_BATTERY_VOLTAGE v] else outbox s)\<rparr>"
    by (simp add: set_voltage_def Let_def snd_send_data)
  have a: "fst (get_voltage arrivals (snd (set_voltage v s))) = fst (get_voltage arrivals s)"
    by (rule getter_reads) (simp_all add: sv wiring_def)
  have b: "heap (s\<lparr>voltage := x\<rparr>) = heap s" "handlers (s\<lparr>voltage := x\<rparr>) = handlers s"
    "link_up (s\<lparr>voltage := x\<rparr>) = link_up s" "wiring (s\<lparr>voltage := x\<rparr>) = wiring s"
    by (simp_all add: wiring_def)
  show ?thesis
    by (intro conjI) (rule sv a getter_reads [OF b])+
qed

section \<open>One motor out of four\<close>

text \<open>
  Claim C10. \<^verbatim>\<open>get_motor(motor)\<close> calls \<^verbatim>\<open>get_motors()\<close> once and returns element
  \<open>motor - 1\<close>, counted from 0, of the tuple it got: motor numbers start at 1, positions
  in the tuple at 0. This holds for every motor number from 1 up to the length of the
  tuple, so for 1 to 4 on the tuple of the four motors.
\<close>

theorem get_motor_indexing:
  assumes "1 \<le> motor" and "motor \<le> int (length values)"
    and "get_motors arrivals s = (Inr values, s')"
  shows "get_motor motor arrivals s = (Inr (values ! nat (motor - 1)), s')"
  using assms by (simp add: get_motor_def and_then_def return_value_def py_index_def)

text \<open>On the fresh facade, the fourth of four received motor values.\<close>

theorem get_motor_indexing_witness:
  "(1::int) \<le> 4 \<and> (4::int) \<le> int (length [1 / 10, 2 / 10, 3 / 10, 4 / 10 :: real]) \<and>
   fst (get_motors [Frame GET_MOTOR_NORMAL [1 / 10, 2 / 10, 3 / 10, 4 / 10]] Mosquito_init)
     = Inr [1 / 10, 2 / 10, 3 / 10, 4 / 10] \<and>
   fst (get_motor 4 [Frame GET_MOTOR_NORMAL [1 / 10, 2 / 10, 3 / 10, 4 / 10]] Mosquito_init)
     = Inr (4 / 10)"
proof -
  let ?arr = "[Frame GET_MOTOR_NORMAL [1 / 10, 2 / 10, 3 / 10, 4 / 10]]"
  obtain r s' where g: "get_motors ?arr Mosquito_init = (r, s')"
    by (cases "get_motors ?arr Mosquito_init")
  have w: "wired Mosquito_init" by (rule wired_init)
  have l: "link_up Mosquito_init" by (simp add: init_fields)
  have "fst (get_motors ?arr Mosquito_init) = Inr [1 / 10, 2 / 10, 3 / 10, 4 / 10]"
    using get_value_received [OF w, of GET_MOTOR_NORMAL "[]" "[1 / 10, 2 / 10, 3 / 10, 4 / 10]" "[]"]
      l
    by (simp add: getter_results sub_of_def)
  with g have r: "r = Inr [1 / 10, 2 / 10, 3 / 10, 4 / 10]" by simp
  show ?thesis
    using get_motor_indexing [of 4 "[1 / 10, 2 / 10, 3 / 10, 4 / 10]" ?arr Mosquito_init s'] g r
    by simp
qed

end
